theory Spec2Isabelle
  imports Complex_Main
begin

section \<open>JavaScript values\<close>

text \<open>
  The device classes store every field as a \<open>CharacteristicValue\<close> and read payloads typed
  \<open>any\<close>. The model keeps the primitive values: \<open>undefined\<close>, \<open>null\<close>, booleans,
  numbers and strings. A number is a double; its finite values are read as rationals (the order
  on finite doubles is the order of their values), next to \<open>NaN\<close> and the two infinities.
\<close>

datatype jsnum = NaN | NegInf | Fin rat | PosInf

datatype jsval = Undefined | Null | Bool bool | Num jsnum | Str string

text \<open>The relational operator \<open><\<close> on numbers: every comparison with \<open>NaN\<close> is false.\<close>

fun jsnum_lt :: "jsnum \<Rightarrow> jsnum \<Rightarrow> bool" where
  "jsnum_lt NaN b = False"
| "jsnum_lt NegInf b = (b = PosInf \<or> (case b of Fin y \<Rightarrow> True | _ \<Rightarrow> False))"
| "jsnum_lt (Fin x) b = (case b of Fin y \<Rightarrow> x < y | PosInf \<Rightarrow> True | _ \<Rightarrow> False)"
| "jsnum_lt PosInf b = False"

text \<open>
  \<open>Number(v)\<close>. The conversion of a string is the language's numeric-literal grammar, which
  the repository does not contain: it is the parameter \<open>sn\<close>.
\<close>

fun Number :: "(string \<Rightarrow> jsnum) \<Rightarrow> jsval \<Rightarrow> jsnum" where
  "Number sn Undefined = NaN"
| "Number sn Null = Fin 0"
| "Number sn (Bool b) = (if b then Fin 1 else Fin 0)"
| "Number sn (Num n) = n"
| "Number sn (Str s) = sn s"

text \<open>One string conversion for closed examples whose payloads hold no string.\<close>

definition no_numeric_strings :: "string \<Rightarrow> jsnum" where
  "no_numeric_strings s = NaN"

text \<open>\<open>v < n\<close> for a value against a number: the value is converted first.\<close>

definition js_lt :: "(string \<Rightarrow> jsnum) \<Rightarrow> jsval \<Rightarrow> jsnum \<Rightarrow> bool" where
  "js_lt sn v n = jsnum_lt (Number sn v) n"

text \<open>\<open>Number.isNaN(v)\<close>: true for the number \<open>NaN\<close> only, without conversion.\<close>

definition isNaN :: "jsval \<Rightarrow> bool" where
  "isNaN v = (v = Num NaN)"

text \<open>\<open>a === b\<close> and \<open>a !== b\<close>: no conversion, and \<open>NaN\<close> differs from itself.\<close>

definition strict_eq :: "jsval \<Rightarrow> jsval \<Rightarrow> bool" where
  "strict_eq a b = (a = b \<and> a \<noteq> Num NaN)"

definition strict_neq :: "jsval \<Rightarrow> jsval \<Rightarrow> bool" where
  "strict_neq a b = (\<not> strict_eq a b)"

text \<open>
  \<open>a == b\<close>, the equality with conversion: \<open>null\<close> and \<open>undefined\<close> equal each other and
  nothing else, two strings are compared as strings, and every other pair is compared as numbers.
\<close>

fun loose_eq :: "(string \<Rightarrow> jsnum) \<Rightarrow> jsval \<Rightarrow> jsval \<Rightarrow> bool" where
  "loose_eq sn Undefined b = (b = Undefined \<or> b = Null)"
| "loose_eq sn Null b = (b = Undefined \<or> b = Null)"
| "loose_eq sn (Str x) (Str y) = (x = y)"
| "loose_eq sn a b =
     (b \<noteq> Undefined \<and> b \<noteq> Null \<and> Number sn a = Number sn b \<and> Number sn a \<noteq> NaN)"

text \<open>The truthiness tested by \<open>if (v)\<close>.\<close>

fun truthy :: "jsval \<Rightarrow> bool" where
  "truthy Undefined = False"
| "truthy Null = False"
| "truthy (Bool b) = b"
| "truthy (Num n) = (n \<noteq> NaN \<and> n \<noteq> Fin 0)"
| "truthy (Str s) = (s \<noteq> [])"

text \<open>\<open>a ?? d\<close>.\<close>

definition nullish :: "jsval \<Rightarrow> jsval \<Rightarrow> jsval" where
  "nullish a d = (if a = Undefined \<or> a = Null then d else a)"

section \<open>Constants of the hub's characteristic model\<close>

definition ACTIVE :: jsval where "ACTIVE = Num (Fin 1)"
definition INACTIVE :: jsval where "INACTIVE = Num (Fin 0)"
definition SWING_ENABLED :: jsval where "SWING_ENABLED = Num (Fin 1)"
definition SWING_DISABLED :: jsval where "SWING_DISABLED = Num (Fin 0)"
definition CHARGING :: jsval where "CHARGING = Num (Fin 1)"
definition NOT_CHARGING :: jsval where "NOT_CHARGING = Num (Fin 0)"
definition BATTERY_LEVEL_LOW :: jsval where "BATTERY_LEVEL_LOW = Num (Fin 1)"
definition BATTERY_LEVEL_NORMAL :: jsval where "BATTERY_LEVEL_NORMAL = Num (Fin 0)"

section \<open>Payloads, configuration and effects\<close>

text \<open>The fields of a cloud status body that \<open>fan\<close> and \<open>motion\<close> read; an absent field is \<open>Undefined\<close>.\<close>

record body =
  power :: jsval
  oscillation :: jsval
  fanSpeed :: jsval
  chargingStatus :: jsval
  battery :: jsval
  version :: jsval
  moveDetected :: jsval
  brightness :: jsval

text \<open>The parsed response of the cloud: its own status code and, when present, the body.\<close>

record deviceStatus =
  ds_statusCode :: jsval
  ds_body :: "body option"

text \<open>The service data of a radio advertisement.\<close>

record serviceData =
  sd_state :: jsval
  sd_movement :: jsval
  sd_lightLevel :: jsval
  sd_battery :: jsval

text \<open>
  What the classes read of the device configuration and of the base class: \<open>BLE\<close> and
  \<open>OpenAPI\<close> are the base class's transport flags, \<open>token\<close> says whether the platform holds a
  cloud credential, the other fields are the truthiness of the configuration entries.
\<close>

record device =
  enableCloudService :: bool
  BLE :: bool
  OpenAPI :: bool
  token :: bool
  offline :: bool
  webhook :: bool
  connectionType :: string
  hide_lightsensor :: bool
  set_minLux :: jsval
  set_maxLux :: jsval

datatype characteristic =
  Active | RotationSpeed | SwingMode | BatteryLevel | ChargingState | StatusLowBattery
  | MotionDetected | CurrentAmbientLightLevel | FirmwareRevision

text \<open>A command body \<open>{command, parameter, commandType: 'command'}\<close>; a parameter is a literal or the text of a value.\<close>

datatype parameter = Lit string | Text jsval

datatype command = Command string parameter

text \<open>
  What a method does beyond changing the fields, in the order it does it. Debug, info and
  warning log lines are left out; the error log, the success log and the base class's
  \<open>statusCode\<close> report are kept.
\<close>

datatype effect =
    Post command
  | GetStatus
  | ConnectBLE
  | ScanBLE
  | DiscoverBLE
  | TurnOnBLE
  | TurnOffBLE
  | UpdateCharacteristic characteristic jsval
  | UpdateCharacteristicError characteristic
  | FirmwareVersion jsval
  | StatusCode jsval
  | SuccessLog
  | ErrorLog
  | UnhandledRejection
  | ScheduleRefresh

section \<open>The fan\<close>

text \<open>
  The fields of \<open>this.Fan\<close>, \<open>this.Battery\<close> and \<open>this.LightBulb\<close>, the entries of
  \<open>accessory.context\<close> that the class reads or writes, and the in-progress flag.
\<close>

record fan =
  Fan_Active :: jsval
  Fan_SwingMode :: jsval
  Fan_RotationSpeed :: jsval
  Battery_BatteryLevel :: jsval
  Battery_StatusLowBattery :: jsval
  Battery_ChargingState :: jsval
  LightBulb_On :: jsval
  LightBulb_Brightness :: jsval
  context_Active :: jsval
  context_RotationSpeed :: jsval
  context_SwingMode :: jsval
  context_BatteryLevel :: jsval
  context_ChargingState :: jsval
  context_StatusLowBattery :: jsval
  context_version :: jsval
  fanUpdateInProgress :: bool

text \<open>The constructor's field values on an empty context.\<close>

definition fan_init :: fan where
  "fan_init = \<lparr> Fan_Active = INACTIVE, Fan_SwingMode = SWING_DISABLED, Fan_RotationSpeed = Num (Fin 0),
     Battery_BatteryLevel = Num (Fin 100), Battery_StatusLowBattery = BATTERY_LEVEL_NORMAL,
     Battery_ChargingState = NOT_CHARGING, LightBulb_On = Bool False, LightBulb_Brightness = Num (Fin 0),
     context_Active = Undefined, context_RotationSpeed = Undefined, context_SwingMode = Undefined,
     context_BatteryLevel = Undefined, context_ChargingState = Undefined,
     context_StatusLowBattery = Undefined, context_version = Undefined,
     fanUpdateInProgress = False \<rparr>"

text \<open>\<open>Fan.BLEparseStatus\<close>.\<close>

definition Fan_BLEparseStatus :: "serviceData \<Rightarrow> fan \<Rightarrow> fan" where
  "Fan_BLEparseStatus sd s =
     (if strict_eq (sd_state sd) (Str ''on'') then s\<lparr>Fan_Active := Bool True\<rparr>
      else s\<lparr>Fan_Active := Bool False\<rparr>)"

text \<open>
  \<open>Fan.openAPIparseStatus\<close>. Reading a field of an absent body raises before any assignment.
  The firmware block hands the version to the hub; its text clean-up is not modelled.
\<close>

definition Fan_openAPIparseStatus ::
  "(string \<Rightarrow> jsnum) \<Rightarrow> deviceStatus \<Rightarrow> fan \<Rightarrow> (fan \<times> effect list) option" where
  "Fan_openAPIparseStatus sn ds s =
     (case ds_body ds of
        None \<Rightarrow> None
      | Some b \<Rightarrow>
          let s1 = s\<lparr>Fan_Active := (if strict_eq (power b) (Str ''on'') then ACTIVE else INACTIVE)\<rparr>;
              s2 = s1\<lparr>Fan_SwingMode :=
                       (if strict_eq (oscillation b) (Str ''on'') then SWING_ENABLED else SWING_DISABLED)\<rparr>;
              s3 = s2\<lparr>Fan_RotationSpeed := fanSpeed b\<rparr>;
              s4 = s3\<lparr>Battery_ChargingState :=
                       (if strict_eq (chargingStatus b) (Str ''charging'') then CHARGING else NOT_CHARGING)\<rparr>;
              s5 = s4\<lparr>Battery_BatteryLevel := Num (Number sn (battery b))\<rparr>;
              s6 = (if js_lt sn (Battery_BatteryLevel s5) (Fin 10)
                    then s5\<lparr>Battery_StatusLowBattery := BATTERY_LEVEL_LOW\<rparr>
                    else s5\<lparr>Battery_StatusLowBattery := BATTERY_LEVEL_NORMAL\<rparr>);
              s7 = (if isNaN (Battery_BatteryLevel s6)
                    then s6\<lparr>Battery_BatteryLevel := Num (Fin 100)\<rparr> else s6)
          in Some (s7, if truthy (version b) then [FirmwareVersion (version b)] else []))"

text \<open>\<open>Fan.updateHomeKitCharacteristics\<close>: each defined field is cached and handed to the hub.\<close>

definition Fan_updateHomeKitCharacteristics :: "fan \<Rightarrow> fan \<times> effect list" where
  "Fan_updateHomeKitCharacteristics s =
     (let (s1, e1) = (if strict_eq (Fan_Active s) Undefined then (s, [])
                      else (s\<lparr>context_Active := Fan_Active s\<rparr>, [UpdateCharacteristic Active (Fan_Active s)]));
          (s2, e2) = (if strict_eq (Fan_RotationSpeed s1) Undefined then (s1, [])
                      else (s1\<lparr>context_RotationSpeed := Fan_RotationSpeed s1\<rparr>,
                            [UpdateCharacteristic RotationSpeed (Fan_RotationSpeed s1)]));
          (s3, e3) = (if strict_eq (Fan_SwingMode s2) Undefined then (s2, [])
                      else (s2\<lparr>context_SwingMode := Fan_SwingMode s2\<rparr>,
                            [UpdateCharacteristic SwingMode (Fan_SwingMode s2)]));
          (s4, e4) = (if strict_eq (Battery_BatteryLevel s3) Undefined then (s3, [])
                      else (s3\<lparr>context_BatteryLevel := Battery_BatteryLevel s3\<rparr>,
                            [UpdateCharacteristic BatteryLevel (Battery_BatteryLevel s3)]));
          (s5, e5) = (if strict_eq (Battery_ChargingState s4) Undefined then (s4, [])
                      else (s4\<lparr>context_ChargingState := Battery_ChargingState s4\<rparr>,
                            [UpdateCharacteristic ChargingState (Battery_ChargingState s4)]));
          (s6, e6) = (if strict_eq (Battery_StatusLowBattery s5) Undefined then (s5, [])
                      else (s5\<lparr>context_StatusLowBattery := Battery_StatusLowBattery s5\<rparr>,
                            [UpdateCharacteristic StatusLowBattery (Battery_StatusLowBattery s5)]))
      in (s6, e1 @ e2 @ e3 @ e4 @ e5 @ e6))"

section \<open>The motion sensor\<close>

record motion =
  MotionSensor_MotionDetected :: jsval
  LightSensor_CurrentAmbientLightLevel :: jsval
  MBattery_BatteryLevel :: jsval
  MBattery_StatusLowBattery :: jsval
  mcontext_MotionDetected :: jsval
  mcontext_BatteryLevel :: jsval
  mcontext_StatusLowBattery :: jsval
  mcontext_CurrentAmbientLightLevel :: jsval
  motionUbpdateInProgress :: bool

definition motion_init :: motion where
  "motion_init = \<lparr> MotionSensor_MotionDetected = Bool False,
     LightSensor_CurrentAmbientLightLevel = Num (Fin (1 / 10000)),
     MBattery_BatteryLevel = Num (Fin 100), MBattery_StatusLowBattery = BATTERY_LEVEL_NORMAL,
     mcontext_MotionDetected = Undefined, mcontext_BatteryLevel = Undefined,
     mcontext_StatusLowBattery = Undefined, mcontext_CurrentAmbientLightLevel = Undefined,
     motionUbpdateInProgress = False \<rparr>"

text \<open>The battery block shared by the two parsers of \<open>motion\<close>: threshold on the stored level.\<close>

definition Motion_lowBattery :: "(string \<Rightarrow> jsnum) \<Rightarrow> motion \<Rightarrow> motion" where
  "Motion_lowBattery sn s =
     (if js_lt sn (MBattery_BatteryLevel s) (Fin 10)
      then s\<lparr>MBattery_StatusLowBattery := BATTERY_LEVEL_LOW\<rparr>
      else s\<lparr>MBattery_StatusLowBattery := BATTERY_LEVEL_NORMAL\<rparr>)"

text \<open>\<open>Motion.BLEparseStatus\<close>.\<close>

definition Motion_BLEparseStatus :: "(string \<Rightarrow> jsnum) \<Rightarrow> device \<Rightarrow> serviceData \<Rightarrow> motion \<Rightarrow> motion" where
  "Motion_BLEparseStatus sn d sd s =
     (let s1 = s\<lparr>MotionSensor_MotionDetected := sd_movement sd\<rparr>;
          s2 = (if \<not> hide_lightsensor d
                then (if strict_eq (sd_lightLevel sd) (Str ''dark'') \<or> strict_eq (sd_lightLevel sd) (Num (Fin 1))
                      then s1\<lparr>LightSensor_CurrentAmbientLightLevel := nullish (set_minLux d) (Num (Fin 1))\<rparr>
                      else s1\<lparr>LightSensor_CurrentAmbientLightLevel := nullish (set_maxLux d) (Num (Fin 6001))\<rparr>)
                else s1);
          b = (if strict_eq (sd_battery sd) Undefined then Num (Fin 100) else sd_battery sd);
          s3 = s2\<lparr>MBattery_BatteryLevel := b\<rparr>
      in Motion_lowBattery sn s3)"

text \<open>\<open>Motion.openAPIparseStatus\<close>.\<close>

definition Motion_openAPIparseStatus ::
  "(string \<Rightarrow> jsnum) \<Rightarrow> device \<Rightarrow> deviceStatus \<Rightarrow> motion \<Rightarrow> (motion \<times> effect list) option" where
  "Motion_openAPIparseStatus sn d ds s =
     (case ds_body ds of
        None \<Rightarrow> None
      | Some b \<Rightarrow>
          let s1 = s\<lparr>MotionSensor_MotionDetected := moveDetected b\<rparr>;
              s2 = (if \<not> hide_lightsensor d
                    then (if strict_eq (brightness b) (Str ''dim'')
                          then s1\<lparr>LightSensor_CurrentAmbientLightLevel := nullish (set_minLux d) (Num (Fin 1))\<rparr>
                          else s1\<lparr>LightSensor_CurrentAmbientLightLevel := nullish (set_maxLux d) (Num (Fin 6001))\<rparr>)
                    else s1);
              s3 = s2\<lparr>MBattery_BatteryLevel := Num (Number sn (battery b))\<rparr>;
              s4 = Motion_lowBattery sn s3;
              s5 = (if isNaN (MBattery_BatteryLevel s4)
                    then s4\<lparr>MBattery_BatteryLevel := Num (Fin 100)\<rparr> else s4)
          in Some (s5, if truthy (version b) then [FirmwareVersion (version b)] else []))"

text \<open>\<open>Motion.updateHomeKitCharacteristics\<close>. With the light sensor hidden there is no
  \<open>LightSensor\<close> object, and the radio branch raises on reading it; no caller awaits or catches that.\<close>

definition Motion_updateHomeKitCharacteristics :: "device \<Rightarrow> motion \<Rightarrow> motion \<times> effect list" where
  "Motion_updateHomeKitCharacteristics d s =
     (let (s1, e1) = (if strict_eq (MotionSensor_MotionDetected s) Undefined then (s, [])
                      else (s\<lparr>mcontext_MotionDetected := MotionSensor_MotionDetected s\<rparr>,
                            [UpdateCharacteristic MotionDetected (MotionSensor_MotionDetected s)]));
          (s2, e2) = (if strict_eq (MBattery_BatteryLevel s1) Undefined then (s1, [])
                      else (s1\<lparr>mcontext_BatteryLevel := MBattery_BatteryLevel s1\<rparr>,
                            [UpdateCharacteristic BatteryLevel (MBattery_BatteryLevel s1)]));
          (s3, e3) = (if strict_eq (MBattery_StatusLowBattery s2) Undefined then (s2, [])
                      else (s2\<lparr>mcontext_StatusLowBattery := MBattery_StatusLowBattery s2\<rparr>,
                            [UpdateCharacteristic StatusLowBattery (MBattery_StatusLowBattery s2)]));
          (s4, e4) = (if BLE d
                      then (if hide_lightsensor d then (s3, [UnhandledRejection])
                            else if strict_eq (LightSensor_CurrentAmbientLightLevel s3) Undefined then (s3, [])
                            else (s3\<lparr>mcontext_CurrentAmbientLightLevel := LightSensor_CurrentAmbientLightLevel s3\<rparr>,
                                  [UpdateCharacteristic CurrentAmbientLightLevel
                                     (LightSensor_CurrentAmbientLightLevel s3)]))
                      else (s3, []))
      in (s4, e1 @ e2 @ e3 @ e4))"

section \<open>The transports\<close>

text \<open>
  What a cloud request comes back with: the request itself fails, or it answers with an HTTP
  status and a body that does not parse (or parses to \<open>null\<close>, whose fields cannot be read), or
  it answers with an HTTP status and a parsed body.
\<close>

datatype response = RequestFails | BodyFails int | Reply int deviceStatus

text \<open>How the radio sequence of a push ends.\<close>

datatype ble_outcome = BLE_ok | BLE_discover_fails | BLE_command_fails

text \<open>
  The world outside one call: whether \<open>connectBLE\<close> yields a client, what the scan block hands
  to the parser (\<open>None\<close> when it hands over nothing), what the cloud answers, and the string
  conversion of \<open>Number\<close>.
\<close>

record env =
  ble_available :: bool
  advertisement :: "serviceData option"
  ble_push :: ble_outcome
  status_response :: response
  command_response :: "command \<Rightarrow> response"
  string_number :: "string \<Rightarrow> jsnum"

text \<open>How a call ends: it returns, or it raises to its caller.\<close>

datatype completion = Returns | Raises

text \<open>The success test shared by every cloud read and write.\<close>

definition status_success :: "int \<Rightarrow> jsval \<Rightarrow> bool" where
  "status_success h b =
     ((h = 200 \<or> h = 100) \<and> (strict_eq b (Num (Fin 200)) \<or> strict_eq b (Num (Fin 100))))"

definition http_value :: "int \<Rightarrow> jsval" where
  "http_value h = Num (Fin (of_int h))"

text \<open>\<open>Fan.apiError\<close> and \<open>Fan.offlineOff\<close>: updates of the hub's characteristics only.\<close>

definition Fan_apiError :: "effect list" where
  "Fan_apiError = [UpdateCharacteristicError Active, UpdateCharacteristicError RotationSpeed,
                   UpdateCharacteristicError SwingMode]"

definition Fan_offlineOff :: "device \<Rightarrow> effect list" where
  "Fan_offlineOff d =
     (if offline d
      then [UpdateCharacteristic Active INACTIVE, UpdateCharacteristic RotationSpeed (Num (Fin 0)),
            UpdateCharacteristic SwingMode SWING_DISABLED]
      else [])"

text \<open>\<open>Fan.openAPIRefreshStatus\<close>. The parser is called without \<open>await\<close>: when it raises, the
  rejection is nobody's, and the cache update still runs.\<close>

definition Fan_openAPIRefreshStatus :: "env \<Rightarrow> fan \<Rightarrow> fan \<times> effect list" where
  "Fan_openAPIRefreshStatus e s =
     (case status_response e of
        RequestFails \<Rightarrow> (s, GetStatus # Fan_apiError @ [ErrorLog])
      | BodyFails h \<Rightarrow> (s, GetStatus # Fan_apiError @ [ErrorLog])
      | Reply h ds \<Rightarrow>
          if status_success h (ds_statusCode ds)
          then (case Fan_openAPIparseStatus (string_number e) ds s of
                  None \<Rightarrow> (let (s', u) = Fan_updateHomeKitCharacteristics s
                           in (s', GetStatus # UnhandledRejection # u))
                | Some (s1, p) \<Rightarrow> (let (s', u) = Fan_updateHomeKitCharacteristics s1
                                   in (s', GetStatus # p @ u)))
          else (s, [GetStatus, StatusCode (http_value h), StatusCode (ds_statusCode ds)]))"

text \<open>\<open>Fan.BLERefreshConnection\<close>.\<close>

definition Fan_BLERefreshConnection :: "env \<Rightarrow> device \<Rightarrow> fan \<Rightarrow> fan \<times> effect list" where
  "Fan_BLERefreshConnection e d s =
     (if token d \<and> connectionType d = ''BLE/OpenAPI''
      then (let (s', r) = Fan_openAPIRefreshStatus e s in (s', ErrorLog # r))
      else (s, [ErrorLog]))"

text \<open>\<open>Fan.BLERefreshStatus\<close>: the scan block runs detached; without a client it raises at once
  and the fallback follows.\<close>

definition Fan_BLERefreshStatus :: "env \<Rightarrow> device \<Rightarrow> fan \<Rightarrow> fan \<times> effect list" where
  "Fan_BLERefreshStatus e d s =
     (if ble_available e
      then (case advertisement e of
              None \<Rightarrow> (s, [ConnectBLE, ScanBLE, UnhandledRejection])
            | Some sd \<Rightarrow> (let (s', u) = Fan_updateHomeKitCharacteristics (Fan_BLEparseStatus sd s)
                          in (s', ConnectBLE # ScanBLE # u)))
      else (let (s', r) = Fan_BLERefreshConnection e d s
            in (s', ConnectBLE # UnhandledRejection # r)))"

text \<open>\<open>Fan.refreshStatus\<close>.\<close>

definition Fan_refreshStatus :: "env \<Rightarrow> device \<Rightarrow> fan \<Rightarrow> fan \<times> effect list" where
  "Fan_refreshStatus e d s =
     (if \<not> enableCloudService d \<and> OpenAPI d then (s, [ErrorLog])
      else if BLE d then Fan_BLERefreshStatus e d s
      else if OpenAPI d \<and> token d then Fan_openAPIRefreshStatus e s
      else (s, Fan_offlineOff d))"

text \<open>One \<open>POST\<close> to the commands endpoint with the \<open>try\<close>/\<open>catch\<close> that each of the three
  cloud push methods wraps around it.\<close>

definition send_command :: "env \<Rightarrow> command \<Rightarrow> effect list" where
  "send_command e c =
     Post c #
     (case command_response e c of
        RequestFails \<Rightarrow> Fan_apiError @ [ErrorLog]
      | BodyFails h \<Rightarrow> Fan_apiError @ [ErrorLog]
      | Reply h ds \<Rightarrow>
          if status_success h (ds_statusCode ds) then [SuccessLog]
          else [StatusCode (http_value h), StatusCode (ds_statusCode ds)])"

text \<open>\<open>Fan.pushRotationSpeedChanges\<close>: the test reads \<open>SwingMode\<close>, as the source does.\<close>

definition Fan_pushRotationSpeedChanges :: "env \<Rightarrow> fan \<Rightarrow> effect list" where
  "Fan_pushRotationSpeedChanges e s =
     (if strict_neq (Fan_SwingMode s) (context_SwingMode s)
      then send_command e (Command ''setWindSpeed'' (Text (Fan_RotationSpeed s)))
      else [])"

text \<open>\<open>Fan.pushSwingModeChanges\<close>.\<close>

definition Fan_pushSwingModeChanges :: "env \<Rightarrow> fan \<Rightarrow> effect list" where
  "Fan_pushSwingModeChanges e s =
     (if strict_neq (Fan_SwingMode s) (context_SwingMode s)
      then send_command e (Command ''setOscillation''
             (Lit (if strict_eq (Fan_SwingMode s) SWING_ENABLED then ''on'' else ''off'')))
      else [])"

text \<open>\<open>Fan.openAPIpushChanges\<close>. None of the three methods assigns a field, so each is its effects.\<close>

definition Fan_openAPIpushChanges :: "env \<Rightarrow> fan \<Rightarrow> effect list" where
  "Fan_openAPIpushChanges e s =
     (if strict_neq (Fan_Active s) (context_Active s)
      then send_command e (Command (if truthy (Fan_Active s) then ''turnOn'' else ''turnOff'') (Lit ''default''))
      else [])
     @ (if truthy (Fan_Active s) then Fan_pushRotationSpeedChanges e s else [])
     @ (if truthy (Fan_Active s) then Fan_pushSwingModeChanges e s else [])"

text \<open>\<open>Fan.BLEPushConnection\<close>.\<close>

definition Fan_BLEPushConnection :: "env \<Rightarrow> device \<Rightarrow> fan \<Rightarrow> effect list" where
  "Fan_BLEPushConnection e d s =
     (if token d \<and> connectionType d = ''BLE/OpenAPI'' then Fan_openAPIpushChanges e s else [])"

text \<open>\<open>Fan.BLEpushChanges\<close>. Without a client the call on it raises out of the method; otherwise
  the promise chain ends in its second \<open>then\<close> or in its \<open>catch\<close>. The chain is not awaited:
  the model gives its effects and its assignment with the call that starts it.\<close>

definition Fan_BLEpushChanges :: "env \<Rightarrow> device \<Rightarrow> fan \<Rightarrow> completion \<times> fan \<times> effect list" where
  "Fan_BLEpushChanges e d s =
     (if strict_neq (Fan_Active s) (context_Active s)
      then (if \<not> ble_available e then (Raises, s, [ConnectBLE])
            else (case ble_push e of
                    BLE_ok \<Rightarrow>
                      (Returns, s\<lparr>Fan_Active := Bool False\<rparr>,
                       [ConnectBLE, DiscoverBLE, if truthy (Fan_Active s) then TurnOnBLE else TurnOffBLE,
                        SuccessLog])
                  | BLE_discover_fails \<Rightarrow>
                      (Returns, s, [ConnectBLE, DiscoverBLE] @ Fan_apiError @ [ErrorLog]
                                   @ Fan_BLEPushConnection e d s)
                  | BLE_command_fails \<Rightarrow>
                      (Returns, s,
                       [ConnectBLE, DiscoverBLE, if truthy (Fan_Active s) then TurnOnBLE else TurnOffBLE]
                       @ Fan_apiError @ [ErrorLog] @ Fan_BLEPushConnection e d s)))
      else (Returns, s, []))"

text \<open>
  The same method in its two parts. The first is what it does before it returns: it connects
  and, with a client, calls \<open>discover\<close>, which starts the chain. The second is the rest of the
  chain, which runs after the method has returned.
\<close>

definition Fan_BLEpushChanges_started :: "env \<Rightarrow> fan \<Rightarrow> completion \<times> effect list" where
  "Fan_BLEpushChanges_started e s =
     (if strict_neq (Fan_Active s) (context_Active s)
      then (if \<not> ble_available e then (Raises, [ConnectBLE]) else (Returns, [ConnectBLE, DiscoverBLE]))
      else (Returns, []))"

definition Fan_BLEpushChanges_chain :: "env \<Rightarrow> device \<Rightarrow> fan \<Rightarrow> fan \<times> effect list" where
  "Fan_BLEpushChanges_chain e d s =
     (if strict_neq (Fan_Active s) (context_Active s) \<and> ble_available e
      then (case ble_push e of
              BLE_ok \<Rightarrow>
                (s\<lparr>Fan_Active := Bool False\<rparr>,
                 [if truthy (Fan_Active s) then TurnOnBLE else TurnOffBLE, SuccessLog])
            | BLE_discover_fails \<Rightarrow> (s, Fan_apiError @ [ErrorLog] @ Fan_BLEPushConnection e d s)
            | BLE_command_fails \<Rightarrow>
                (s, [if truthy (Fan_Active s) then TurnOnBLE else TurnOffBLE]
                    @ Fan_apiError @ [ErrorLog] @ Fan_BLEPushConnection e d s))
      else (s, []))"

text \<open>
  \<open>Fan.pushChanges\<close>: the selected transport, then the one-shot follow-up refresh is scheduled.
  On the radio the refresh is scheduled when \<open>BLEpushChanges\<close> returns, before its chain runs:
  the effects are in the order in which they happen, and the fields are those left once the
  chain has ended.
\<close>

definition Fan_pushChanges :: "env \<Rightarrow> device \<Rightarrow> fan \<Rightarrow> completion \<times> fan \<times> effect list" where
  "Fan_pushChanges e d s =
     (if \<not> enableCloudService d \<and> OpenAPI d then (Returns, s, [ErrorLog, ScheduleRefresh])
      else if BLE d then
        (case Fan_BLEpushChanges_started e s of
           (Returns, x) \<Rightarrow>
             (let (s', y) = Fan_BLEpushChanges_chain e d s in (Returns, s', x @ [ScheduleRefresh] @ y))
         | (Raises, x) \<Rightarrow> (Raises, s, x))
      else if OpenAPI d \<and> token d then (Returns, s, Fan_openAPIpushChanges e s @ [ScheduleRefresh])
      else (Returns, s, Fan_offlineOff d @ [ScheduleRefresh]))"

text \<open>The effects that reach a device or the cloud.\<close>

fun network_io :: "effect \<Rightarrow> bool" where
  "network_io (Post c) = True"
| "network_io GetStatus = True"
| "network_io ConnectBLE = True"
| "network_io ScanBLE = True"
| "network_io DiscoverBLE = True"
| "network_io TurnOnBLE = True"
| "network_io TurnOffBLE = True"
| "network_io x = False"

text \<open>The outbound commands among the effects: cloud posts and radio on/off calls.\<close>

fun outbound_command :: "effect \<Rightarrow> bool" where
  "outbound_command (Post c) = True"
| "outbound_command TurnOnBLE = True"
| "outbound_command TurnOffBLE = True"
| "outbound_command x = False"

text \<open>The cloud commands posted, in order.\<close>

fun posted :: "effect list \<Rightarrow> command list" where
  "posted [] = []"
| "posted (Post c # xs) = c # posted xs"
| "posted (x # xs) = posted xs"

fun command_name :: "command \<Rightarrow> string" where
  "command_name (Command n p) = n"

section \<open>The webhook handlers\<close>

text \<open>The fields that the two handlers take out of an event; an absent field is \<open>Undefined\<close>.
  An event that is \<open>null\<close> or \<open>undefined\<close> itself is \<open>None\<close>: taking a field out of it raises.\<close>

record event =
  ev_version :: jsval
  ev_battery :: jsval
  ev_powerState :: jsval
  ev_oscillation :: jsval
  ev_chargingStatus :: jsval
  ev_fanSpeed :: jsval
  ev_detectionState :: jsval

text \<open>The handler that \<open>Fan.registerWebhook\<close> installs: its \<open>try\<close> body, and the \<open>catch\<close> that logs.\<close>

definition Fan_webhookEventHandler :: "event option \<Rightarrow> fan \<Rightarrow> fan \<times> effect list" where
  "Fan_webhookEventHandler c s =
     (case c of
        None \<Rightarrow> (s, [ErrorLog])
      | Some ev \<Rightarrow>
          let s1 = s\<lparr>Fan_Active := (if strict_eq (ev_powerState ev) (Str ''ON'') then ACTIVE else INACTIVE)\<rparr>;
              s2 = s1\<lparr>Fan_SwingMode :=
                       (if strict_eq (ev_oscillation ev) (Str ''on'') then SWING_ENABLED else SWING_DISABLED)\<rparr>;
              s3 = s2\<lparr>Fan_RotationSpeed := ev_fanSpeed ev\<rparr>;
              s4 = s3\<lparr>Battery_ChargingState :=
                       (if strict_eq (ev_chargingStatus ev) (Str ''charging'') then CHARGING else NOT_CHARGING)\<rparr>;
              s5 = s4\<lparr>Battery_BatteryLevel := ev_battery ev\<rparr>;
              (s6, f) = (if truthy (ev_version ev)
                         then (s5\<lparr>context_version := ev_version ev\<rparr>, [FirmwareVersion (ev_version ev)])
                         else (s5, []));
              (s7, u) = Fan_updateHomeKitCharacteristics s6
          in (s7, f @ u))"

text \<open>The handler that \<open>Motion.registerWebhook\<close> installs. (Either class installs its handler
  only when the configuration asks for the webhook.)\<close>

definition Motion_webhookEventHandler :: "device \<Rightarrow> event option \<Rightarrow> motion \<Rightarrow> motion \<times> effect list" where
  "Motion_webhookEventHandler d c s =
     (case c of
        None \<Rightarrow> (s, [ErrorLog])
      | Some ev \<Rightarrow>
          Motion_updateHomeKitCharacteristics d
            (s\<lparr>MotionSensor_MotionDetected :=
                 (if strict_eq (ev_detectionState ev) (Str ''DETECTED'') then Bool True else Bool False)\<rparr>))"

section \<open>Refresh of the motion sensor\<close>

definition Motion_apiError :: "device \<Rightarrow> effect list" where
  "Motion_apiError d =
     [UpdateCharacteristicError MotionDetected, UpdateCharacteristicError BatteryLevel,
      UpdateCharacteristicError StatusLowBattery]
     @ (if BLE d
        then (if hide_lightsensor d then [UnhandledRejection]
              else [UpdateCharacteristicError CurrentAmbientLightLevel])
        else [])"

definition Motion_offlineOff :: "device \<Rightarrow> effect list" where
  "Motion_offlineOff d = (if offline d then [UpdateCharacteristic MotionDetected (Bool False)] else [])"

text \<open>\<open>Motion.openAPIRefreshStatus\<close>.\<close>

definition Motion_openAPIRefreshStatus :: "env \<Rightarrow> device \<Rightarrow> motion \<Rightarrow> motion \<times> effect list" where
  "Motion_openAPIRefreshStatus e d s =
     (case status_response e of
        RequestFails \<Rightarrow> (s, GetStatus # Motion_apiError d @ [ErrorLog])
      | BodyFails h \<Rightarrow> (s, GetStatus # Motion_apiError d @ [ErrorLog])
      | Reply h ds \<Rightarrow>
          if status_success h (ds_statusCode ds)
          then (case Motion_openAPIparseStatus (string_number e) d ds s of
                  None \<Rightarrow> (let (s', u) = Motion_updateHomeKitCharacteristics d s
                           in (s', GetStatus # UnhandledRejection # u))
                | Some (s1, p) \<Rightarrow> (let (s', u) = Motion_updateHomeKitCharacteristics d s1
                                   in (s', GetStatus # p @ u)))
          else (s, [GetStatus, StatusCode (http_value h), StatusCode (ds_statusCode ds)]))"

definition Motion_BLERefreshConnection :: "env \<Rightarrow> device \<Rightarrow> motion \<Rightarrow> motion \<times> effect list" where
  "Motion_BLERefreshConnection e d s =
     (if token d \<and> connectionType d = ''BLE/OpenAPI''
      then (let (s', r) = Motion_openAPIRefreshStatus e d s in (s', ErrorLog # r))
      else (s, [ErrorLog]))"

text \<open>\<open>Motion.BLERefreshStatus\<close>.\<close>

definition Motion_BLERefreshStatus :: "env \<Rightarrow> device \<Rightarrow> motion \<Rightarrow> motion \<times> effect list" where
  "Motion_BLERefreshStatus e d s =
     (if ble_available e
      then (case advertisement e of
              None \<Rightarrow> (s, [ConnectBLE, ScanBLE, UnhandledRejection])
            | Some sd \<Rightarrow>
                (let (s', u) = Motion_updateHomeKitCharacteristics d
                                 (Motion_BLEparseStatus (string_number e) d sd s)
                 in (s', ConnectBLE # ScanBLE # u)))
      else (let (s', r) = Motion_BLERefreshConnection e d s
            in (s', ConnectBLE # UnhandledRejection # r)))"

text \<open>\<open>Motion.refreshStatus\<close>.\<close>

definition Motion_refreshStatus :: "env \<Rightarrow> device \<Rightarrow> motion \<Rightarrow> motion \<times> effect list" where
  "Motion_refreshStatus e d s =
     (if \<not> enableCloudService d \<and> OpenAPI d then (s, [ErrorLog])
      else if BLE d then Motion_BLERefreshStatus e d s
      else if OpenAPI d \<and> token d then Motion_openAPIRefreshStatus e d s
      else (s, Motion_offlineOff d))"

section \<open>Setters and the debounced push\<close>

text \<open>The five handlers that the hub calls, with the value it passes.\<close>

datatype setter =
  ActiveSet jsval | RotationSpeedSet jsval | SwingModeSet jsval | OnSet jsval | BrightnessSet jsval

text \<open>The assignment in each setter.\<close>

fun Fan_set :: "setter \<Rightarrow> fan \<Rightarrow> fan" where
  "Fan_set (ActiveSet v) s = s\<lparr>Fan_Active := v\<rparr>"
| "Fan_set (RotationSpeedSet v) s = s\<lparr>Fan_RotationSpeed := v\<rparr>"
| "Fan_set (SwingModeSet v) s = s\<lparr>Fan_SwingMode := v\<rparr>"
| "Fan_set (OnSet v) s = s\<lparr>LightBulb_On := v\<rparr>"
| "Fan_set (BrightnessSet v) s = s\<lparr>LightBulb_Brightness := v\<rparr>"

text \<open>The \<open>tap\<close> on \<open>doFanUpdate\<close>.\<close>

definition Fan_tap :: "fan \<Rightarrow> fan" where
  "Fan_tap s = s\<lparr>fanUpdateInProgress := True\<rparr>"

text \<open>The subscriber of \<open>doFanUpdate\<close>: the push, the \<open>catch\<close> around it, and the flag lowered.
  The flag is lowered when \<open>pushChanges\<close> returns, which on the radio is before the chain ends;
  the chain does not read or write the flag, so the fields left at the end are the same.\<close>

definition Fan_subscriber :: "env \<Rightarrow> device \<Rightarrow> fan \<Rightarrow> fan \<times> effect list" where
  "Fan_subscriber e d s =
     (case Fan_pushChanges e d s of
        (Returns, s', x) \<Rightarrow> (s'\<lparr>fanUpdateInProgress := False\<rparr>, x)
      | (Raises, s', x) \<Rightarrow> (s'\<lparr>fanUpdateInProgress := False\<rparr>, x @ Fan_apiError @ [ErrorLog]))"

text \<open>
  The push pipeline in time. Time is counted in milliseconds. \<open>debounceTime\<close> holds one timer:
  every signal re-arms it one window ahead, and when it runs out the subscriber is called once.
  \<open>p_cycles\<close> records the fields as each call of the subscriber finds them.
\<close>

record pusher =
  p_fan :: fan
  p_timer :: "nat option"
  p_cycles :: "fan list"
  p_effects :: "effect list"

text \<open>A setter called at time \<open>t\<close>: its assignment, then \<open>doFanUpdate.next()\<close> through the tap into the debounce.\<close>

definition call :: "nat \<Rightarrow> nat \<Rightarrow> setter \<Rightarrow> pusher \<Rightarrow> pusher" where
  "call w t c p = p\<lparr>p_fan := Fan_tap (Fan_set c (p_fan p)), p_timer := Some (t + w)\<rparr>"

definition flush :: "env \<Rightarrow> device \<Rightarrow> pusher \<Rightarrow> pusher" where
  "flush e d p =
     (let (s', x) = Fan_subscriber e d (p_fan p)
      in p\<lparr>p_fan := s', p_timer := None, p_cycles := p_cycles p @ [p_fan p],
           p_effects := p_effects p @ x\<rparr>)"

text \<open>Time passes up to \<open>t\<close>: a timer due by then runs out.\<close>

definition elapse :: "env \<Rightarrow> device \<Rightarrow> nat \<Rightarrow> pusher \<Rightarrow> pusher" where
  "elapse e d t p =
     (case p_timer p of None \<Rightarrow> p | Some due \<Rightarrow> if due \<le> t then flush e d p else p)"

text \<open>The setter calls of a schedule, each at its time.\<close>

fun run :: "env \<Rightarrow> device \<Rightarrow> nat \<Rightarrow> (nat \<times> setter) list \<Rightarrow> pusher \<Rightarrow> pusher" where
  "run e d w [] p = p"
| "run e d w ((t, c) # cs) p = run e d w cs (call w t c (elapse e d t p))"

text \<open>No further call arrives: a pending timer runs out.\<close>

definition settle :: "env \<Rightarrow> device \<Rightarrow> pusher \<Rightarrow> pusher" where
  "settle e d p = (case p_timer p of None \<Rightarrow> p | Some due \<Rightarrow> flush e d p)"

text \<open>A burst inside one debounce window: times in order, each call less than a window after the one before.\<close>

fun burst :: "nat \<Rightarrow> (nat \<times> setter) list \<Rightarrow> bool" where
  "burst w [] = True"
| "burst w [x] = True"
| "burst w (x # y # cs) = (fst x \<le> fst y \<and> fst y < fst x + w \<and> burst w (y # cs))"







section \<open>The refresh interval\<close>

text \<open>
  The interval of the constructor behind \<open>skipWhile\<close>: the operator drops ticks until its test
  is false for the first time and lets every later tick through. A tick that gets through calls
  \<open>refreshStatus\<close>, which returns later; \<open>fl_refreshing\<close> counts the calls that have not
  returned. The constructor has made one such call itself and has cached the initial fields.
\<close>

record fan_loop =
  fl_fan :: fan
  fl_passing :: bool
  fl_refreshing :: nat

datatype fan_event = Tick | RefreshReturns env | Call setter | Debounced env

definition fan_loop_init :: fan_loop where
  "fan_loop_init =
     \<lparr> fl_fan = fst (Fan_updateHomeKitCharacteristics fan_init), fl_passing = False, fl_refreshing = 1 \<rparr>"

fun fan_step :: "device \<Rightarrow> fan_event \<Rightarrow> fan_loop \<Rightarrow> fan_loop" where
  "fan_step d Tick l =
     (if \<not> fl_passing l \<and> fanUpdateInProgress (fl_fan l) then l
      else l\<lparr>fl_passing := True, fl_refreshing := Suc (fl_refreshing l)\<rparr>)"
| "fan_step d (RefreshReturns e) l =
     (if fl_refreshing l = 0 then l
      else l\<lparr>fl_fan := fst (Fan_refreshStatus e d (fl_fan l)), fl_refreshing := fl_refreshing l - 1\<rparr>)"
| "fan_step d (Call c) l = l\<lparr>fl_fan := Fan_tap (Fan_set c (fl_fan l))\<rparr>"
| "fan_step d (Debounced e) l = l\<lparr>fl_fan := fst (Fan_subscriber e d (fl_fan l))\<rparr>"

fun fan_steps :: "device \<Rightarrow> fan_event list \<Rightarrow> fan_loop \<Rightarrow> fan_loop" where
  "fan_steps d [] l = l"
| "fan_steps d (x # xs) l = fan_steps d xs (fan_step d x l)"

text \<open>The same for the motion sensor, whose events are the tick, the return of a refresh and a webhook event.\<close>

record motion_loop =
  ml_motion :: motion
  ml_passing :: bool
  ml_refreshing :: nat

datatype motion_event = MTick | MRefreshReturns env | MWebhook "event option"

definition motion_loop_init :: "device \<Rightarrow> motion_loop" where
  "motion_loop_init d =
     \<lparr> ml_motion = fst (Motion_updateHomeKitCharacteristics d motion_init), ml_passing = False,
       ml_refreshing = 1 \<rparr>"

fun motion_step :: "device \<Rightarrow> motion_event \<Rightarrow> motion_loop \<Rightarrow> motion_loop" where
  "motion_step d MTick l =
     (if \<not> ml_passing l \<and> motionUbpdateInProgress (ml_motion l) then l
      else l\<lparr>ml_passing := True, ml_refreshing := Suc (ml_refreshing l)\<rparr>)"
| "motion_step d (MRefreshReturns e) l =
     (if ml_refreshing l = 0 then l
      else l\<lparr>ml_motion := fst (Motion_refreshStatus e d (ml_motion l)),
             ml_refreshing := ml_refreshing l - 1\<rparr>)"
| "motion_step d (MWebhook c) l =
     l\<lparr>ml_motion := (if webhook d then fst (Motion_webhookEventHandler d c (ml_motion l)) else ml_motion l)\<rparr>"

fun motion_steps :: "device \<Rightarrow> motion_event list \<Rightarrow> motion_loop \<Rightarrow> motion_loop" where
  "motion_steps d [] l = l"
| "motion_steps d (x # xs) l = motion_steps d xs (motion_step d x l)"

section \<open>Readings of the state used in the statements\<close>

text \<open>A percentage: a finite number from 0 to 100.\<close>

fun percent :: "jsval \<Rightarrow> bool" where
  "percent (Num (Fin r)) = (0 \<le> r \<and> r \<le> 100)"
| "percent v = False"

text \<open>The fields after the parser has run; they are as before when it raises.\<close>

definition Fan_parsed :: "(string \<Rightarrow> jsnum) \<Rightarrow> deviceStatus \<Rightarrow> fan \<Rightarrow> fan" where
  "Fan_parsed sn ds s = (case Fan_openAPIparseStatus sn ds s of None \<Rightarrow> s | Some (s', x) \<Rightarrow> s')"

definition Motion_parsed :: "(string \<Rightarrow> jsnum) \<Rightarrow> device \<Rightarrow> deviceStatus \<Rightarrow> motion \<Rightarrow> motion" where
  "Motion_parsed sn d ds s = (case Motion_openAPIparseStatus sn d ds s of None \<Rightarrow> s | Some (s', x) \<Rightarrow> s')"

text \<open>The configurations that reach the last branch of \<open>refreshStatus\<close> and \<open>pushChanges\<close>.\<close>

definition no_transport :: "device \<Rightarrow> bool" where
  "no_transport d =
     (\<not> (\<not> enableCloudService d \<and> OpenAPI d) \<and> \<not> BLE d \<and> \<not> (OpenAPI d \<and> token d))"

text \<open>The configurations that reach \<open>openAPIpushChanges\<close> directly.\<close>

definition cloud_transport :: "device \<Rightarrow> bool" where
  "cloud_transport d = (enableCloudService d \<and> \<not> BLE d \<and> OpenAPI d \<and> token d)"

text \<open>The effects by which a method reports that a cloud call did not succeed.\<close>

fun reports_failure :: "effect \<Rightarrow> bool" where
  "reports_failure (StatusCode v) = True"
| "reports_failure ErrorLog = True"
| "reports_failure (UpdateCharacteristicError c) = True"
| "reports_failure x = False"


text \<open>The effects that hand a value to the hub.\<close>

fun hub_update :: "effect \<Rightarrow> bool" where
  "hub_update (UpdateCharacteristic c v) = True"
| "hub_update (FirmwareVersion v) = True"
| "hub_update x = False"

section \<open>Fixed inputs for the closed examples\<close>

definition quiet_env :: env where
  "quiet_env = \<lparr> ble_available = True, advertisement = None, ble_push = BLE_ok,
     status_response = RequestFails, command_response = (\<lambda>c. RequestFails),
     string_number = no_numeric_strings \<rparr>"

definition no_body :: body where
  "no_body = \<lparr> power = Undefined, oscillation = Undefined, fanSpeed = Undefined,
     chargingStatus = Undefined, battery = Undefined, version = Undefined,
     moveDetected = Undefined, brightness = Undefined \<rparr>"

definition no_event :: event where
  "no_event = \<lparr> ev_version = Undefined, ev_battery = Undefined, ev_powerState = Undefined,
     ev_oscillation = Undefined, ev_chargingStatus = Undefined, ev_fanSpeed = Undefined,
     ev_detectionState = Undefined \<rparr>"

definition cloud_device :: device where
  "cloud_device = \<lparr> enableCloudService = True, BLE = False, OpenAPI = True, token = True,
     offline = False, webhook = True, connectionType = ''OpenAPI'', hide_lightsensor = False,
     set_minLux = Undefined, set_maxLux = Undefined \<rparr>"

definition status_with :: "body \<Rightarrow> deviceStatus" where
  "status_with b = \<lparr> ds_statusCode = Num (Fin 100), ds_body = Some b \<rparr>"

text \<open>A cloud that refuses the status read with body code 190 and accepts every command.\<close>

definition answering_env :: env where
  "answering_env = quiet_env\<lparr> status_response := Reply 200 \<lparr>ds_statusCode = Num (Fin 190), ds_body = None\<rparr>,
     command_response := (\<lambda>c. Reply 200 \<lparr>ds_statusCode = Num (Fin 100), ds_body = None\<rparr>) \<rparr>"

text \<open>A fan whose cache agrees with its three pushed fields; the same with the swing mode
  changed while off; the same with power and swing mode changed.\<close>

definition fan_synced :: fan where
  "fan_synced = fan_init\<lparr> context_Active := INACTIVE, context_RotationSpeed := Num (Fin 0),
     context_SwingMode := SWING_DISABLED \<rparr>"

definition fan_swing_pending :: fan where
  "fan_swing_pending = fan_synced\<lparr> Fan_SwingMode := SWING_ENABLED \<rparr>"

definition fan_on_pending :: fan where
  "fan_on_pending = fan_synced\<lparr> Fan_Active := ACTIVE, Fan_SwingMode := SWING_ENABLED \<rparr>"

text \<open>The cloud device flagged offline; a device with no transport left, flagged offline; a radio device.\<close>

definition offline_device :: device where
  "offline_device = cloud_device\<lparr> offline := True \<rparr>"

definition unreachable_device :: device where
  "unreachable_device = cloud_device\<lparr> offline := True, OpenAPI := False \<rparr>"

definition radio_device :: device where
  "radio_device = cloud_device\<lparr> BLE := True, OpenAPI := False, connectionType := ''BLE'' \<rparr>"

text \<open>A radio device with the light sensor hidden.\<close>

definition hidden_radio_device :: device where
  "hidden_radio_device = radio_device\<lparr> hide_lightsensor := True \<rparr>"

text \<open>The synced fan with a request to switch on, and the fan as a radio push of that request leaves it.\<close>

definition fan_switched_on :: fan where
  "fan_switched_on = fan_synced\<lparr> Fan_Active := ACTIVE \<rparr>"

definition fan_radio_off :: fan where
  "fan_radio_off = fan_synced\<lparr> Fan_Active := Bool False \<rparr>"

definition pusher_init :: pusher where
  "pusher_init = \<lparr> p_fan = fan_synced, p_timer = None, p_cycles = [], p_effects = [] \<rparr>"

section \<open>Facts about the values and the effect lists\<close>

lemmas hap_defs = ACTIVE_def INACTIVE_def SWING_ENABLED_def SWING_DISABLED_def
  CHARGING_def NOT_CHARGING_def BATTERY_LEVEL_LOW_def BATTERY_LEVEL_NORMAL_def

lemma strict_eq_const: "strict_eq v (Num (Fin r)) = (v = Num (Fin r))"
  by (auto simp: strict_eq_def)

lemma strict_eq_Str: "strict_eq v (Str x) = (v = Str x)"
  by (auto simp: strict_eq_def)

lemma posted_append: "posted (xs @ ys) = posted xs @ posted ys"
  by (induction xs rule: posted.induct) simp_all

lemma posted_send_command: "posted (send_command e c) = [c]"
  by (simp add: send_command_def Fan_apiError_def split: response.splits)

lemma network_send_command: "filter network_io (send_command e c) = [Post c]"
  by (simp add: send_command_def Fan_apiError_def split: response.splits)

lemma outbound_network: "outbound_command x \<Longrightarrow> network_io x"
  by (cases x) simp_all

lemma no_network_no_outbound: "filter network_io xs = [] \<Longrightarrow> filter outbound_command xs = []"
  by (auto simp: filter_empty_conv dest: outbound_network)

section \<open>Facts about parsing and caching\<close>

lemma Fan_parsed_battery:
  assumes "ds_body ds = Some b"
  shows "Battery_BatteryLevel (Fan_parsed sn ds s) =
           (if Number sn (battery b) = NaN then Num (Fin 100) else Num (Number sn (battery b)))"
    and "Battery_StatusLowBattery (Fan_parsed sn ds s) =
           (if jsnum_lt (Number sn (battery b)) (Fin 10) then BATTERY_LEVEL_LOW else BATTERY_LEVEL_NORMAL)"
  using assms by (simp_all add: Fan_parsed_def Fan_openAPIparseStatus_def Let_def js_lt_def isNaN_def)

lemma Motion_parsed_battery:
  assumes "ds_body ds = Some b"
  shows "MBattery_BatteryLevel (Motion_parsed sn d ds s) =
           (if Number sn (battery b) = NaN then Num (Fin 100) else Num (Number sn (battery b)))"
    and "MBattery_StatusLowBattery (Motion_parsed sn d ds s) =
           (if jsnum_lt (Number sn (battery b)) (Fin 10) then BATTERY_LEVEL_LOW else BATTERY_LEVEL_NORMAL)"
  using assms by (simp_all add: Motion_parsed_def Motion_openAPIparseStatus_def Motion_lowBattery_def
      Let_def js_lt_def isNaN_def)

lemma Motion_BLE_battery:
  shows "MBattery_BatteryLevel (Motion_BLEparseStatus sn d sd s) =
           (if sd_battery sd = Undefined then Num (Fin 100) else sd_battery sd)"
    and "MBattery_StatusLowBattery (Motion_BLEparseStatus sn d sd s) =
           (if js_lt sn (if sd_battery sd = Undefined then Num (Fin 100) else sd_battery sd) (Fin 10)
            then BATTERY_LEVEL_LOW else BATTERY_LEVEL_NORMAL)"
  by (simp_all add: Motion_BLEparseStatus_def Motion_lowBattery_def Let_def strict_eq_def)

lemma update_caches:
  "context_Active (fst (Fan_updateHomeKitCharacteristics s)) =
     (if Fan_Active s = Undefined then context_Active s else Fan_Active s)"
  "context_RotationSpeed (fst (Fan_updateHomeKitCharacteristics s)) =
     (if Fan_RotationSpeed s = Undefined then context_RotationSpeed s else Fan_RotationSpeed s)"
  "context_SwingMode (fst (Fan_updateHomeKitCharacteristics s)) =
     (if Fan_SwingMode s = Undefined then context_SwingMode s else Fan_SwingMode s)"
  "context_BatteryLevel (fst (Fan_updateHomeKitCharacteristics s)) =
     (if Battery_BatteryLevel s = Undefined then context_BatteryLevel s else Battery_BatteryLevel s)"
  "Fan_Active (fst (Fan_updateHomeKitCharacteristics s)) = Fan_Active s"
  "Fan_RotationSpeed (fst (Fan_updateHomeKitCharacteristics s)) = Fan_RotationSpeed s"
  "Fan_SwingMode (fst (Fan_updateHomeKitCharacteristics s)) = Fan_SwingMode s"
  "Battery_BatteryLevel (fst (Fan_updateHomeKitCharacteristics s)) = Battery_BatteryLevel s"
  "Battery_ChargingState (fst (Fan_updateHomeKitCharacteristics s)) = Battery_ChargingState s"
  "Battery_StatusLowBattery (fst (Fan_updateHomeKitCharacteristics s)) = Battery_StatusLowBattery s"
  "LightBulb_On (fst (Fan_updateHomeKitCharacteristics s)) = LightBulb_On s"
  "LightBulb_Brightness (fst (Fan_updateHomeKitCharacteristics s)) = LightBulb_Brightness s"
  "fanUpdateInProgress (fst (Fan_updateHomeKitCharacteristics s)) = fanUpdateInProgress s"
  by (simp_all add: Fan_updateHomeKitCharacteristics_def Let_def strict_eq_def split: prod.splits)

lemma update_no_failure: "filter reports_failure (snd (Fan_updateHomeKitCharacteristics s)) = []"
  by (simp add: Fan_updateHomeKitCharacteristics_def Let_def split: prod.splits)

lemma mupdate_no_failure: "filter reports_failure (snd (Motion_updateHomeKitCharacteristics d s)) = []"
  by (simp add: Motion_updateHomeKitCharacteristics_def Let_def split: prod.splits)

lemma mupdate_fields:
  "MotionSensor_MotionDetected (fst (Motion_updateHomeKitCharacteristics d s)) = MotionSensor_MotionDetected s"
  "MBattery_BatteryLevel (fst (Motion_updateHomeKitCharacteristics d s)) = MBattery_BatteryLevel s"
  "MBattery_StatusLowBattery (fst (Motion_updateHomeKitCharacteristics d s)) = MBattery_StatusLowBattery s"
  "motionUbpdateInProgress (fst (Motion_updateHomeKitCharacteristics d s)) = motionUbpdateInProgress s"
  by (simp_all add: Motion_updateHomeKitCharacteristics_def Let_def case_prod_beta)

lemma parse_no_failure:
  "Fan_openAPIparseStatus sn ds s = Some (s', p) \<Longrightarrow> filter reports_failure p = []"
  by (auto simp add: Fan_openAPIparseStatus_def Let_def split: option.splits)

lemma mparse_no_failure:
  "Motion_openAPIparseStatus sn d ds s = Some (s', p) \<Longrightarrow> filter reports_failure p = []"
  by (auto simp add: Motion_openAPIparseStatus_def Let_def split: option.splits)

lemma Fan_parsed_flag: "fanUpdateInProgress (Fan_parsed sn ds s) = fanUpdateInProgress s"
  by (simp add: Fan_parsed_def Fan_openAPIparseStatus_def Let_def split: option.splits)

lemma Motion_parsed_flag: "motionUbpdateInProgress (Motion_parsed sn d ds s) = motionUbpdateInProgress s"
  by (simp add: Motion_parsed_def Motion_openAPIparseStatus_def Motion_lowBattery_def Let_def
      split: option.splits)

lemma Motion_BLEparse_flag:
  "motionUbpdateInProgress (Motion_BLEparseStatus sn d sd s) = motionUbpdateInProgress s"
  by (simp add: Motion_BLEparseStatus_def Motion_lowBattery_def Let_def)

section \<open>Facts about the cloud status read\<close>

lemma Fan_refresh_failure:
  assumes "status_response e = Reply h ds" "\<not> status_success h (ds_statusCode ds)"
  shows "Fan_openAPIRefreshStatus e s =
           (s, [GetStatus, StatusCode (http_value h), StatusCode (ds_statusCode ds)])"
  using assms by (simp add: Fan_openAPIRefreshStatus_def)

lemma Motion_refresh_failure:
  assumes "status_response e = Reply h ds" "\<not> status_success h (ds_statusCode ds)"
  shows "Motion_openAPIRefreshStatus e d m =
           (m, [GetStatus, StatusCode (http_value h), StatusCode (ds_statusCode ds)])"
  using assms by (simp add: Motion_openAPIRefreshStatus_def)

lemma Fan_refresh_success:
  assumes "status_response e = Reply h ds" "status_success h (ds_statusCode ds)"
  shows "fst (Fan_openAPIRefreshStatus e s) =
           fst (Fan_updateHomeKitCharacteristics (Fan_parsed (string_number e) ds s))"
    and "filter reports_failure (snd (Fan_openAPIRefreshStatus e s)) = []"
proof -
  show "fst (Fan_openAPIRefreshStatus e s) =
          fst (Fan_updateHomeKitCharacteristics (Fan_parsed (string_number e) ds s))"
    using assms
    by (simp add: Fan_openAPIRefreshStatus_def Fan_parsed_def split: option.splits prod.splits)
  show "filter reports_failure (snd (Fan_openAPIRefreshStatus e s)) = []"
  proof (cases "Fan_openAPIparseStatus (string_number e) ds s")
    case None
    then show ?thesis using assms update_no_failure[of s]
      by (simp add: Fan_openAPIRefreshStatus_def case_prod_beta)
  next
    case (Some r)
    obtain s1 p where r: "r = (s1, p)" by (cases r)
    show ?thesis
      using assms Some r update_no_failure[of s1] parse_no_failure[of "string_number e" ds s s1 p]
      by (simp add: Fan_openAPIRefreshStatus_def case_prod_beta)
  qed
qed

lemma Motion_refresh_success:
  assumes "status_response e = Reply h ds" "status_success h (ds_statusCode ds)"
  shows "fst (Motion_openAPIRefreshStatus e d s) =
           fst (Motion_updateHomeKitCharacteristics d (Motion_parsed (string_number e) d ds s))"
    and "filter reports_failure (snd (Motion_openAPIRefreshStatus e d s)) = []"
proof -
  show "fst (Motion_openAPIRefreshStatus e d s) =
          fst (Motion_updateHomeKitCharacteristics d (Motion_parsed (string_number e) d ds s))"
    using assms
    by (simp add: Motion_openAPIRefreshStatus_def Motion_parsed_def split: option.splits prod.splits)
  show "filter reports_failure (snd (Motion_openAPIRefreshStatus e d s)) = []"
  proof (cases "Motion_openAPIparseStatus (string_number e) d ds s")
    case None
    then show ?thesis using assms mupdate_no_failure[of d s]
      by (simp add: Motion_openAPIRefreshStatus_def case_prod_beta)
  next
    case (Some r)
    obtain s1 p where r: "r = (s1, p)" by (cases r)
    show ?thesis
      using assms Some r mupdate_no_failure[of d s1] mparse_no_failure[of "string_number e" d ds s s1 p]
      by (simp add: Motion_openAPIRefreshStatus_def case_prod_beta)
  qed
qed

section \<open>Facts about the in-progress flags\<close>

lemma Fan_openAPIRefresh_flag:
  "fanUpdateInProgress (fst (Fan_openAPIRefreshStatus e s)) = fanUpdateInProgress s"
proof (cases "status_response e")
  case (Reply h ds)
  show ?thesis
  proof (cases "status_success h (ds_statusCode ds)")
    case True
    then show ?thesis
      using Fan_refresh_success(1)[OF Reply True, of s] by (simp add: update_caches Fan_parsed_flag)
  next
    case False
    then show ?thesis using Reply by (simp add: Fan_openAPIRefreshStatus_def)
  qed
qed (simp_all add: Fan_openAPIRefreshStatus_def)

lemma Fan_BLERefresh_flag:
  "fanUpdateInProgress (fst (Fan_BLERefreshStatus e d s)) = fanUpdateInProgress s"
  by (simp add: Fan_BLERefreshStatus_def Fan_BLERefreshConnection_def Fan_openAPIRefresh_flag
      update_caches Fan_BLEparseStatus_def case_prod_beta split: option.splits)

lemma Fan_refresh_flag:
  "fanUpdateInProgress (fst (Fan_refreshStatus e d s)) = fanUpdateInProgress s"
  by (simp add: Fan_refreshStatus_def Fan_BLERefresh_flag Fan_openAPIRefresh_flag)

lemma Fan_subscriber_flag: "\<not> fanUpdateInProgress (fst (Fan_subscriber e d s))"
  by (simp add: Fan_subscriber_def split: prod.splits completion.splits)

lemma Motion_openAPIRefresh_flag:
  "motionUbpdateInProgress (fst (Motion_openAPIRefreshStatus e d s)) = motionUbpdateInProgress s"
proof (cases "status_response e")
  case (Reply h ds)
  show ?thesis
  proof (cases "status_success h (ds_statusCode ds)")
    case True
    then show ?thesis
      using Motion_refresh_success(1)[OF Reply True, of d s] by (simp add: mupdate_fields Motion_parsed_flag)
  next
    case False
    then show ?thesis using Reply by (simp add: Motion_openAPIRefreshStatus_def)
  qed
qed (simp_all add: Motion_openAPIRefreshStatus_def)

lemma Motion_refresh_flag:
  "motionUbpdateInProgress (fst (Motion_refreshStatus e d s)) = motionUbpdateInProgress s"
  by (simp add: Motion_refreshStatus_def Motion_BLERefreshStatus_def Motion_BLERefreshConnection_def
      Motion_openAPIRefresh_flag mupdate_fields Motion_BLEparse_flag case_prod_beta split: option.splits)

lemma Motion_webhook_flag:
  "motionUbpdateInProgress (fst (Motion_webhookEventHandler d c s)) = motionUbpdateInProgress s"
  by (simp add: Motion_webhookEventHandler_def mupdate_fields split: option.splits)

lemma motion_step_flag:
  "motionUbpdateInProgress (ml_motion (motion_step d x l)) = motionUbpdateInProgress (ml_motion l)"
  by (cases x) (simp_all add: Motion_refresh_flag Motion_webhook_flag)

lemma motion_steps_flag:
  "motionUbpdateInProgress (ml_motion (motion_steps d xs l)) = motionUbpdateInProgress (ml_motion l)"
  by (induction xs arbitrary: l) (simp_all add: motion_step_flag)

lemma fan_tick_skipped:
  "(fan_step d Tick l = l) = (\<not> fl_passing l \<and> fanUpdateInProgress (fl_fan l))"
proof (cases "\<not> fl_passing l \<and> fanUpdateInProgress (fl_fan l)")
  case True
  then show ?thesis by simp
next
  case False
  have "fl_refreshing (fan_step d Tick l) = Suc (fl_refreshing l)"
    using False by auto
  then have "fan_step d Tick l \<noteq> l" by (metis n_not_Suc_n)
  then show ?thesis using False by simp
qed

section \<open>Facts about the push\<close>

lemma pushChanges_cloud:
  "cloud_transport d \<Longrightarrow>
   Fan_pushChanges e d s = (Returns, s, Fan_openAPIpushChanges e s @ [ScheduleRefresh])"
  by (simp add: cloud_transport_def Fan_pushChanges_def)

lemma openAPIpush_posted:
  "posted (Fan_openAPIpushChanges e s) =
     (if strict_neq (Fan_Active s) (context_Active s)
      then [Command (if truthy (Fan_Active s) then ''turnOn'' else ''turnOff'') (Lit ''default'')] else [])
     @ posted (if truthy (Fan_Active s) then Fan_pushRotationSpeedChanges e s else [])
     @ (if truthy (Fan_Active s) \<and> strict_neq (Fan_SwingMode s) (context_SwingMode s)
        then [Command ''setOscillation''
                (Lit (if strict_eq (Fan_SwingMode s) SWING_ENABLED then ''on'' else ''off''))]
        else [])"
  by (simp add: Fan_openAPIpushChanges_def Fan_pushSwingModeChanges_def posted_append posted_send_command)

lemma rotation_posted:
  "posted (Fan_pushRotationSpeedChanges e s) =
     (if strict_neq (Fan_SwingMode s) (context_SwingMode s)
      then [Command ''setWindSpeed'' (Text (Fan_RotationSpeed s))] else [])"
  by (simp add: Fan_pushRotationSpeedChanges_def posted_send_command)

lemma openAPIpush_synced:
  assumes "strict_eq (Fan_Active s) (context_Active s)" "strict_eq (Fan_SwingMode s) (context_SwingMode s)"
  shows "filter network_io (Fan_openAPIpushChanges e s) = []"
  using assms by (simp add: Fan_openAPIpushChanges_def Fan_pushSwingModeChanges_def
      Fan_pushRotationSpeedChanges_def strict_neq_def)

lemma offlineOff_no_network: "filter network_io (Fan_offlineOff d) = []"
  by (simp add: Fan_offlineOff_def)

lemma BLEpush_synced:
  assumes "strict_eq (Fan_Active s) (context_Active s)"
  shows "Fan_BLEpushChanges e d s = (Returns, s, [])"
  using assms by (simp add: Fan_BLEpushChanges_def strict_neq_def)

lemma BLEpushChanges_parts:
  "Fan_BLEpushChanges e d s =
     (case Fan_BLEpushChanges_started e s of
        (Returns, x) \<Rightarrow> (Returns, fst (Fan_BLEpushChanges_chain e d s), x @ snd (Fan_BLEpushChanges_chain e d s))
      | (Raises, x) \<Rightarrow> (Raises, s, x))"
  by (simp add: Fan_BLEpushChanges_def Fan_BLEpushChanges_started_def Fan_BLEpushChanges_chain_def
      split: ble_outcome.splits)

lemma BLEparts_synced:
  assumes "strict_eq (Fan_Active s) (context_Active s)"
  shows "Fan_BLEpushChanges_started e s = (Returns, [])" "Fan_BLEpushChanges_chain e d s = (s, [])"
  using assms by (simp_all add: Fan_BLEpushChanges_started_def Fan_BLEpushChanges_chain_def strict_neq_def)

lemma pushChanges_synced:
  assumes "strict_eq (Fan_Active s) (context_Active s)" "strict_eq (Fan_SwingMode s) (context_SwingMode s)"
  shows "filter network_io (snd (snd (Fan_pushChanges e d s))) = []"
  using assms openAPIpush_synced[OF assms, of e] offlineOff_no_network[of d]
    BLEparts_synced(1)[OF assms(1), of e] BLEparts_synced(2)[OF assms(1), of e d]
  by (simp add: Fan_pushChanges_def)




lemma update_hub_only: "list_all hub_update (snd (Fan_updateHomeKitCharacteristics s))"
  by (simp add: Fan_updateHomeKitCharacteristics_def Let_def case_prod_beta)

lemma mupdate_hub_only:
  "\<not> (BLE d \<and> hide_lightsensor d) \<Longrightarrow> list_all hub_update (snd (Motion_updateHomeKitCharacteristics d s))"
  by (auto simp add: Motion_updateHomeKitCharacteristics_def Let_def case_prod_beta)

lemma hub_update_quiet: "hub_update x \<Longrightarrow> x \<noteq> UnhandledRejection \<and> x \<noteq> ErrorLog \<and> \<not> network_io x"
  by (cases x) simp_all

lemma hub_only_quiet:
  "list_all hub_update xs \<Longrightarrow> UnhandledRejection \<notin> set xs \<and> ErrorLog \<notin> set xs \<and> filter network_io xs = []"
  by (auto simp: list_all_iff filter_empty_conv dest: hub_update_quiet)

text \<open>
  The test in \<open>pushRotationSpeedChanges\<close> compares the swing mode, although its log line names
  the rotation speed: with the fan on and only the speed changed, no \<open>setWindSpeed\<close> is posted.
\<close>

lemma speed_change_alone_not_posted:
  "strict_neq (Fan_RotationSpeed (fan_synced\<lparr>Fan_Active := ACTIVE, context_Active := ACTIVE,
                                              Fan_RotationSpeed := Num (Fin 50)\<rparr>))
              (context_RotationSpeed (fan_synced\<lparr>Fan_Active := ACTIVE, context_Active := ACTIVE,
                                                  Fan_RotationSpeed := Num (Fin 50)\<rparr>))
   \<and> posted (Fan_openAPIpushChanges answering_env
               (fan_synced\<lparr>Fan_Active := ACTIVE, context_Active := ACTIVE,
                            Fan_RotationSpeed := Num (Fin 50)\<rparr>)) = []"
  by (simp add: openAPIpush_posted rotation_posted fan_synced_def fan_init_def strict_neq_def
      strict_eq_def hap_defs)

section \<open>Facts about the debounce\<close>












text \<open>Two calls a full window apart are two cycles, each with the value of its own call.\<close>

lemma separate_calls_two_cycles:
  "\<not> burst 100 [(0, RotationSpeedSet (Num (Fin 30))), (100, RotationSpeedSet (Num (Fin 60)))]
   \<and> map Fan_RotationSpeed (p_cycles (settle answering_env cloud_device (run answering_env cloud_device 100
        [(0, RotationSpeedSet (Num (Fin 30))), (100, RotationSpeedSet (Num (Fin 60)))] pusher_init)))
     = [Num (Fin 30), Num (Fin 60)]"
  by (simp add: pusher_init_def elapse_def call_def flush_def settle_def Fan_subscriber_def
      Fan_pushChanges_def cloud_device_def Fan_tap_def case_prod_beta)

section \<open>C1: the commands of one cloud dispatch cycle\<close>

text \<open>
  C1, as stated, fails: a field that differs from its cache does not always produce a command.
  With the fan off in fields and cache and the swing mode changed, a cloud push posts nothing.
\<close>

theorem pending_swing_withheld_while_off:
  "strict_neq (Fan_SwingMode fan_swing_pending) (context_SwingMode fan_swing_pending)
   \<and> cloud_transport cloud_device
   \<and> posted (snd (snd (Fan_pushChanges answering_env cloud_device fan_swing_pending))) = []"
  by (simp add: fan_swing_pending_def fan_synced_def fan_init_def strict_neq_def strict_eq_def hap_defs
      cloud_transport_def cloud_device_def Fan_pushChanges_def Fan_openAPIpushChanges_def)

text \<open>
  C1, amended. In every cloud dispatch cycle the posted commands are, in this order: one
  \<open>turnOn\<close> or \<open>turnOff\<close> exactly when \<open>Active\<close> differs from its cache; then what the
  rotation-speed step posts, which is at most one command and only ever
  \<open>setWindSpeed\<close> with the current speed, and nothing while \<open>Active\<close> is falsy; then one
  \<open>setOscillation\<close> exactly when \<open>Active\<close> is truthy and \<open>SwingMode\<close> differs from its cache.
  So an \<open>Active\<close> equal to its cache produces no power command and a \<open>SwingMode\<close> equal to its
  cache produces no \<open>setOscillation\<close>. When the rotation-speed step posts, and whether it keeps
  silent for a speed equal to its cache, is left open.
\<close>

theorem cloud_dispatch_order:
  "posted (Fan_openAPIpushChanges e s) =
     (if strict_neq (Fan_Active s) (context_Active s)
      then [Command (if truthy (Fan_Active s) then ''turnOn'' else ''turnOff'') (Lit ''default'')] else [])
     @ posted (if truthy (Fan_Active s) then Fan_pushRotationSpeedChanges e s else [])
     @ (if truthy (Fan_Active s) \<and> strict_neq (Fan_SwingMode s) (context_SwingMode s)
        then [Command ''setOscillation''
                (Lit (if strict_eq (Fan_SwingMode s) SWING_ENABLED then ''on'' else ''off''))]
        else [])
   \<and> length (posted (if truthy (Fan_Active s) then Fan_pushRotationSpeedChanges e s else [])) \<le> 1
   \<and> (\<forall>c \<in> set (posted (if truthy (Fan_Active s) then Fan_pushRotationSpeedChanges e s else [])).
         c = Command ''setWindSpeed'' (Text (Fan_RotationSpeed s)))
   \<and> (strict_eq (Fan_Active s) (context_Active s) \<longrightarrow>
         (\<forall>c \<in> set (posted (Fan_openAPIpushChanges e s)).
            command_name c \<noteq> ''turnOn'' \<and> command_name c \<noteq> ''turnOff''))
   \<and> (strict_eq (Fan_SwingMode s) (context_SwingMode s) \<longrightarrow>
         (\<forall>c \<in> set (posted (Fan_openAPIpushChanges e s)). command_name c \<noteq> ''setOscillation''))
   \<and> (cloud_transport d \<longrightarrow>
         posted (snd (snd (Fan_pushChanges e d s))) = posted (Fan_openAPIpushChanges e s))"
  using pushChanges_cloud[of d e s] openAPIpush_posted[of e s]
  by (simp add: rotation_posted posted_append strict_neq_def)

text \<open>The amended C1 at a fan switched on with the swing mode changed: three commands, power first.\<close>

theorem cloud_dispatch_order_witness:
  "cloud_transport cloud_device
   \<and> posted (snd (snd (Fan_pushChanges answering_env cloud_device fan_on_pending)))
     = [Command ''turnOn'' (Lit ''default''), Command ''setWindSpeed'' (Text (Num (Fin 0))),
        Command ''setOscillation'' (Lit ''on'')]
   \<and> strict_eq (Fan_Active fan_synced) (context_Active fan_synced)
   \<and> strict_eq (Fan_SwingMode fan_synced) (context_SwingMode fan_synced)
   \<and> posted (Fan_openAPIpushChanges answering_env fan_synced) = []"
proof -
  have h1: "cloud_transport cloud_device"
    by (simp add: cloud_transport_def cloud_device_def)
  have h2: "strict_neq (Fan_Active fan_on_pending) (context_Active fan_on_pending)"
    "strict_neq (Fan_SwingMode fan_on_pending) (context_SwingMode fan_on_pending)"
    "truthy (Fan_Active fan_on_pending)" "strict_eq (Fan_SwingMode fan_on_pending) SWING_ENABLED"
    "Fan_RotationSpeed fan_on_pending = Num (Fin 0)"
    by (simp_all add: fan_on_pending_def fan_synced_def fan_init_def strict_neq_def strict_eq_def hap_defs)
  have h3: "strict_eq (Fan_Active fan_synced) (context_Active fan_synced)"
    "strict_eq (Fan_SwingMode fan_synced) (context_SwingMode fan_synced)"
    "\<not> truthy (Fan_Active fan_synced)"
    by (simp_all add: fan_synced_def fan_init_def strict_eq_def hap_defs)
  show ?thesis
    using h1 h2 h3 cloud_dispatch_order[of answering_env fan_on_pending cloud_device]
      cloud_dispatch_order[of answering_env fan_synced cloud_device]
    by (simp add: rotation_posted strict_neq_def)
qed

section \<open>C2: a burst of setter calls is one cycle\<close>




section \<open>C3: battery reconciliation\<close>

text \<open>
  C3, as stated, fails: the parsers store \<open>Number(battery)\<close> as it is and clamp nothing. A cloud
  status whose battery is 150 leaves \<open>BatteryLevel\<close> at 150, which is no percentage.
\<close>

theorem battery_not_clamped:
  "Battery_BatteryLevel
     (Fan_parsed no_numeric_strings (status_with (no_body\<lparr>battery := Num (Fin 150)\<rparr>)) fan_init)
   = Num (Fin 150) \<and> \<not> percent (Num (Fin 150))"
  by (simp add: Fan_parsed_def Fan_openAPIparseStatus_def Let_def js_lt_def isNaN_def no_body_def
      status_with_def)

text \<open>
  C3, amended. For every cloud status with a body, in the fan and in the motion sensor, with
  \<open>n\<close> the number that \<open>Number\<close> makes of the payload's battery: \<open>BatteryLevel\<close> is 100 when
  \<open>n\<close> is \<open>NaN\<close> (an absent battery converts to \<open>NaN\<close>) and \<open>n\<close> itself otherwise, with no
  clamp, so it is a percentage whenever \<open>n\<close> is one; \<open>StatusLowBattery\<close> is LOW exactly when
  \<open>n < 10\<close> and NORMAL otherwise. In the radio parser of the motion sensor an absent battery
  gives 100, any other value is stored as it is, and the same threshold applies to the stored value.
\<close>

theorem battery_reconciliation:
  assumes "ds_body ds = Some b" and "n = Number sn (battery b)"
  shows "Battery_BatteryLevel (Fan_parsed sn ds s) = (if n = NaN then Num (Fin 100) else Num n)
       \<and> Battery_StatusLowBattery (Fan_parsed sn ds s) =
           (if jsnum_lt n (Fin 10) then BATTERY_LEVEL_LOW else BATTERY_LEVEL_NORMAL)
       \<and> MBattery_BatteryLevel (Motion_parsed sn d ds m) = (if n = NaN then Num (Fin 100) else Num n)
       \<and> MBattery_StatusLowBattery (Motion_parsed sn d ds m) =
           (if jsnum_lt n (Fin 10) then BATTERY_LEVEL_LOW else BATTERY_LEVEL_NORMAL)
       \<and> (percent (Num n) \<longrightarrow> percent (Battery_BatteryLevel (Fan_parsed sn ds s))
                              \<and> percent (MBattery_BatteryLevel (Motion_parsed sn d ds m)))
       \<and> MBattery_BatteryLevel (Motion_BLEparseStatus sn d sd m) =
           (if sd_battery sd = Undefined then Num (Fin 100) else sd_battery sd)
       \<and> MBattery_StatusLowBattery (Motion_BLEparseStatus sn d sd m) =
           (if js_lt sn (MBattery_BatteryLevel (Motion_BLEparseStatus sn d sd m)) (Fin 10)
            then BATTERY_LEVEL_LOW else BATTERY_LEVEL_NORMAL)"
  using assms Fan_parsed_battery[of ds b sn s] Motion_parsed_battery[of ds b sn d m]
    Motion_BLE_battery[of sn d sd m]
  by (cases n) auto

text \<open>The amended C3 at a battery of 5: stored as 5, a percentage, and LOW.\<close>

theorem battery_reconciliation_witness:
  "ds_body (status_with (no_body\<lparr>battery := Num (Fin 5)\<rparr>)) = Some (no_body\<lparr>battery := Num (Fin 5)\<rparr>)
   \<and> Fin 5 = Number no_numeric_strings (battery (no_body\<lparr>battery := Num (Fin 5)\<rparr>))
   \<and> percent (Num (Fin 5))
   \<and> Battery_BatteryLevel
       (Fan_parsed no_numeric_strings (status_with (no_body\<lparr>battery := Num (Fin 5)\<rparr>)) fan_init)
     = Num (Fin 5)
   \<and> Battery_StatusLowBattery
       (Fan_parsed no_numeric_strings (status_with (no_body\<lparr>battery := Num (Fin 5)\<rparr>)) fan_init)
     = BATTERY_LEVEL_LOW
   \<and> percent (MBattery_BatteryLevel
       (Motion_parsed no_numeric_strings cloud_device
          (status_with (no_body\<lparr>battery := Num (Fin 5)\<rparr>)) motion_init))"
proof -
  have h1: "ds_body (status_with (no_body\<lparr>battery := Num (Fin 5)\<rparr>)) = Some (no_body\<lparr>battery := Num (Fin 5)\<rparr>)"
    by (simp add: status_with_def)
  have h2: "Fin 5 = Number no_numeric_strings (battery (no_body\<lparr>battery := Num (Fin 5)\<rparr>))"
    by simp
  show ?thesis
    using h1 h2 battery_reconciliation[OF h1 h2, of fan_init cloud_device motion_init]
    by simp
qed

section \<open>C4: the success test of cloud reads and writes\<close>

text \<open>
  C4. For every answered status read (fan and motion sensor) and every answered command write:
  the call counts as a success exactly when the HTTP status is 200 or 100 and the status code in
  the body is 200 or 100. On any other combination the read reports the two numeric codes, leaves
  fields and cache as they were and returns; the write reports the two codes. On a success the
  read caches the parsed fields and reports no failure, and the write logs its success. A cloud
  push returns to its caller and changes neither fields nor cache.
\<close>

theorem status_success_decides:
  assumes "status_response e = Reply h ds" and "command_response e c = Reply k cs"
  shows "(status_success h (ds_statusCode ds) \<longleftrightarrow>
            (h = 200 \<or> h = 100) \<and> (ds_statusCode ds = Num (Fin 200) \<or> ds_statusCode ds = Num (Fin 100)))
       \<and> (\<not> status_success h (ds_statusCode ds) \<longrightarrow>
            Fan_openAPIRefreshStatus e s =
              (s, [GetStatus, StatusCode (http_value h), StatusCode (ds_statusCode ds)])
          \<and> Motion_openAPIRefreshStatus e d m =
              (m, [GetStatus, StatusCode (http_value h), StatusCode (ds_statusCode ds)]))
       \<and> (status_success h (ds_statusCode ds) \<longrightarrow>
            fst (Fan_openAPIRefreshStatus e s) =
              fst (Fan_updateHomeKitCharacteristics (Fan_parsed (string_number e) ds s))
          \<and> filter reports_failure (snd (Fan_openAPIRefreshStatus e s)) = []
          \<and> fst (Motion_openAPIRefreshStatus e d m) =
              fst (Motion_updateHomeKitCharacteristics d (Motion_parsed (string_number e) d ds m))
          \<and> filter reports_failure (snd (Motion_openAPIRefreshStatus e d m)) = [])
       \<and> send_command e c =
            Post c # (if (k = 200 \<or> k = 100)
                         \<and> (ds_statusCode cs = Num (Fin 200) \<or> ds_statusCode cs = Num (Fin 100))
                      then [SuccessLog] else [StatusCode (http_value k), StatusCode (ds_statusCode cs)])
       \<and> (cloud_transport d \<longrightarrow>
            fst (Fan_pushChanges e d s) = Returns \<and> fst (snd (Fan_pushChanges e d s)) = s)"
proof -
  have a: "status_success h (ds_statusCode ds) \<longleftrightarrow>
            (h = 200 \<or> h = 100) \<and> (ds_statusCode ds = Num (Fin 200) \<or> ds_statusCode ds = Num (Fin 100))"
    by (simp add: status_success_def strict_eq_const)
  have b: "send_command e c =
            Post c # (if (k = 200 \<or> k = 100)
                         \<and> (ds_statusCode cs = Num (Fin 200) \<or> ds_statusCode cs = Num (Fin 100))
                      then [SuccessLog] else [StatusCode (http_value k), StatusCode (ds_statusCode cs)])"
    using assms(2) by (simp add: send_command_def status_success_def strict_eq_const)
  show ?thesis
    using a b Fan_refresh_failure[OF assms(1)] Motion_refresh_failure[OF assms(1)]
      Fan_refresh_success[OF assms(1)] Motion_refresh_success[OF assms(1)] pushChanges_cloud[of d e s]
    by simp
qed

text \<open>C4 at a read answered with HTTP 200 and body code 190 and a write answered with 200 and 100.\<close>

theorem status_success_decides_witness:
  "status_response answering_env = Reply 200 \<lparr>ds_statusCode = Num (Fin 190), ds_body = None\<rparr>
   \<and> command_response answering_env (Command ''turnOn'' (Lit ''default''))
       = Reply 200 \<lparr>ds_statusCode = Num (Fin 100), ds_body = None\<rparr>
   \<and> \<not> status_success 200 (Num (Fin 190))
   \<and> cloud_transport cloud_device
   \<and> Fan_openAPIRefreshStatus answering_env fan_synced
       = (fan_synced, [GetStatus, StatusCode (http_value 200), StatusCode (Num (Fin 190))])
   \<and> send_command answering_env (Command ''turnOn'' (Lit ''default''))
       = [Post (Command ''turnOn'' (Lit ''default'')), SuccessLog]
   \<and> fst (snd (Fan_pushChanges answering_env cloud_device fan_synced)) = fan_synced"
proof -
  have h1: "status_response answering_env = Reply 200 \<lparr>ds_statusCode = Num (Fin 190), ds_body = None\<rparr>"
    by (simp add: answering_env_def quiet_env_def)
  have h2: "command_response answering_env (Command ''turnOn'' (Lit ''default''))
       = Reply 200 \<lparr>ds_statusCode = Num (Fin 100), ds_body = None\<rparr>"
    by (simp add: answering_env_def quiet_env_def)
  have h3: "\<not> status_success 200 (Num (Fin 190))"
    by (simp add: status_success_def strict_eq_def)
  have h4: "cloud_transport cloud_device"
    by (simp add: cloud_transport_def cloud_device_def)
  show ?thesis
    using h1 h2 h3 h4 status_success_decides[OF h1 h2, of fan_synced cloud_device motion_init]
    by simp
qed

section \<open>C5: dispatch without a change sends nothing\<close>

text \<open>
  C5, as stated, fails: the dispatch compares with \<open>!==\<close>, so fields that equal their cache by
  \<open>==\<close> can still send. A radio push that switches the synced fan on leaves \<open>Active\<close> at
  \<open>false\<close> against the cached 0. All three fields then equal their cache by \<open>==\<close>, and the
  next cycle sends \<open>turnOff\<close>, over the radio and over the cloud.
\<close>

theorem loosely_equal_still_sends:
  "fst (snd (Fan_pushChanges quiet_env radio_device fan_switched_on)) = fan_radio_off
   \<and> loose_eq no_numeric_strings (Fan_Active fan_radio_off) (context_Active fan_radio_off)
   \<and> loose_eq no_numeric_strings (Fan_RotationSpeed fan_radio_off) (context_RotationSpeed fan_radio_off)
   \<and> loose_eq no_numeric_strings (Fan_SwingMode fan_radio_off) (context_SwingMode fan_radio_off)
   \<and> filter outbound_command (snd (snd (Fan_pushChanges quiet_env radio_device fan_radio_off))) = [TurnOffBLE]
   \<and> posted (snd (snd (Fan_pushChanges answering_env cloud_device fan_radio_off)))
     = [Command ''turnOff'' (Lit ''default'')]"
  by (simp add: Fan_pushChanges_def Fan_BLEpushChanges_started_def Fan_BLEpushChanges_chain_def
      Fan_openAPIpushChanges_def posted_append posted_send_command
      quiet_env_def radio_device_def cloud_device_def fan_switched_on_def fan_radio_off_def
      fan_synced_def fan_init_def strict_neq_def strict_eq_def hap_defs)

text \<open>
  C5, amended. For every state in which \<open>Active\<close>, \<open>RotationSpeed\<close> and \<open>SwingMode\<close> each equal
  their cache entry by \<open>===\<close>, the comparison the dispatch uses, a dispatch cycle sends no
  command and does no network I/O at all: through \<open>pushChanges\<close> under every configuration, and
  in the cloud and the radio push methods taken alone.
\<close>

theorem dispatch_idempotent:
  assumes "strict_eq (Fan_Active s) (context_Active s)"
    and "strict_eq (Fan_RotationSpeed s) (context_RotationSpeed s)"
    and "strict_eq (Fan_SwingMode s) (context_SwingMode s)"
  shows "filter outbound_command (snd (snd (Fan_pushChanges e d s))) = []
       \<and> filter outbound_command (Fan_openAPIpushChanges e s) = []
       \<and> filter outbound_command (snd (snd (Fan_BLEpushChanges e d s))) = []
       \<and> filter network_io (snd (snd (Fan_pushChanges e d s))) = []"
  using pushChanges_synced[OF assms(1) assms(3), of e d] openAPIpush_synced[OF assms(1) assms(3), of e]
    BLEpush_synced[OF assms(1), of e d]
  by (simp add: no_network_no_outbound)

text \<open>The amended C5 at the fan whose cache agrees with its fields, over the cloud and over the radio.\<close>

theorem dispatch_idempotent_witness:
  "strict_eq (Fan_Active fan_synced) (context_Active fan_synced)
   \<and> strict_eq (Fan_RotationSpeed fan_synced) (context_RotationSpeed fan_synced)
   \<and> strict_eq (Fan_SwingMode fan_synced) (context_SwingMode fan_synced)
   \<and> filter outbound_command (snd (snd (Fan_pushChanges answering_env cloud_device fan_synced))) = []
   \<and> filter outbound_command (snd (snd (Fan_pushChanges answering_env radio_device fan_synced))) = []"
proof -
  have h1: "strict_eq (Fan_Active fan_synced) (context_Active fan_synced)"
    by (simp add: fan_synced_def fan_init_def strict_eq_def INACTIVE_def)
  have h2: "strict_eq (Fan_RotationSpeed fan_synced) (context_RotationSpeed fan_synced)"
    by (simp add: fan_synced_def fan_init_def strict_eq_def)
  have h3: "strict_eq (Fan_SwingMode fan_synced) (context_SwingMode fan_synced)"
    by (simp add: fan_synced_def fan_init_def strict_eq_def SWING_DISABLED_def)
  show ?thesis
    using h1 h2 h3 dispatch_idempotent[OF h1 h2 h3, of answering_env cloud_device]
      dispatch_idempotent[OF h1 h2 h3, of answering_env radio_device]
    by simp
qed

section \<open>C6: the refresh interval and the in-progress flag\<close>

text \<open>
  C6, as stated, fails: a tick that fires while a refresh is running is not skipped. After the
  constructor, whose own refresh has not returned, two ticks start two more refreshes, in the
  fan and in the motion sensor; three run at once.
\<close>

theorem tick_during_refresh_not_skipped:
  "fl_refreshing fan_loop_init = 1
   \<and> fl_refreshing (fan_step cloud_device Tick fan_loop_init) = 2
   \<and> fl_refreshing (fan_steps cloud_device [Tick, Tick] fan_loop_init) = 3
   \<and> ml_refreshing (motion_steps cloud_device [MTick, MTick] (motion_loop_init cloud_device)) = 3"
  by (simp add: fan_loop_init_def fan_init_def motion_loop_init_def motion_init_def update_caches
      mupdate_fields)

text \<open>
  C6, amended. A tick of the fan's refresh interval is skipped exactly when no tick has got
  through yet and the in-progress flag is raised; a skipped tick changes nothing, and every other
  tick starts a refresh whatever number of refreshes is running. The flag belongs to the push:
  a setter call raises it, the end of the debounced push lowers it, and neither \<open>refreshStatus\<close>
  nor its return touches it. In the motion sensor nothing raises the flag, so from the
  constructor on every tick starts a refresh.
\<close>

theorem refresh_interval_gate:
  "(fan_step d Tick l = l) = (\<not> fl_passing l \<and> fanUpdateInProgress (fl_fan l))
   \<and> (\<not> (\<not> fl_passing l \<and> fanUpdateInProgress (fl_fan l)) \<longrightarrow>
        fan_step d Tick l = l\<lparr>fl_passing := True, fl_refreshing := Suc (fl_refreshing l)\<rparr>)
   \<and> fanUpdateInProgress (fst (Fan_refreshStatus e d s)) = fanUpdateInProgress s
   \<and> fanUpdateInProgress (fl_fan (fan_step d (RefreshReturns e) l)) = fanUpdateInProgress (fl_fan l)
   \<and> fanUpdateInProgress (fl_fan (fan_step d (Call c) l))
   \<and> \<not> fanUpdateInProgress (fl_fan (fan_step d (Debounced e) l))
   \<and> \<not> motionUbpdateInProgress (ml_motion (motion_steps d xs (motion_loop_init d)))
   \<and> ml_refreshing (motion_step d MTick (motion_steps d xs (motion_loop_init d))) =
       Suc (ml_refreshing (motion_steps d xs (motion_loop_init d)))"
proof -
  have m: "\<not> motionUbpdateInProgress (ml_motion (motion_steps d xs (motion_loop_init d)))"
    by (simp add: motion_steps_flag motion_loop_init_def motion_init_def mupdate_fields)
  show ?thesis
    using m fan_tick_skipped[of d l]
    by (simp add: Fan_refresh_flag Fan_subscriber_flag Fan_tap_def)
qed

text \<open>The amended C6 after the constructor: a tick right after a setter call is skipped, a tick
  with the flag down starts a second refresh.\<close>

theorem refresh_interval_gate_witness:
  "fanUpdateInProgress (fl_fan (fan_step cloud_device (Call (ActiveSet ACTIVE)) fan_loop_init))
   \<and> fan_step cloud_device Tick (fan_step cloud_device (Call (ActiveSet ACTIVE)) fan_loop_init)
       = fan_step cloud_device (Call (ActiveSet ACTIVE)) fan_loop_init
   \<and> \<not> (\<not> fl_passing fan_loop_init \<and> fanUpdateInProgress (fl_fan fan_loop_init))
   \<and> fan_step cloud_device Tick fan_loop_init = fan_loop_init\<lparr>fl_passing := True, fl_refreshing := 2\<rparr>"
proof -
  have h1: "\<not> fl_passing (fan_step cloud_device (Call (ActiveSet ACTIVE)) fan_loop_init)"
    by (simp add: fan_loop_init_def)
  have h2: "\<not> (\<not> fl_passing fan_loop_init \<and> fanUpdateInProgress (fl_fan fan_loop_init))"
    "fl_refreshing fan_loop_init = 1"
    by (simp_all add: fan_loop_init_def fan_init_def update_caches)
  show ?thesis
    using h1 h2
      refresh_interval_gate[of cloud_device "fan_step cloud_device (Call (ActiveSet ACTIVE)) fan_loop_init"
        quiet_env fan_init "ActiveSet ACTIVE" "[]"]
      refresh_interval_gate[of cloud_device fan_loop_init quiet_env fan_init "ActiveSet ACTIVE" "[]"]
    by simp
qed

section \<open>C7: the offline baseline\<close>

text \<open>
  C7, as stated, fails: the offline flag is read only where no transport is left. A device
  flagged offline that is configured for the cloud and holds a credential still reads its status
  and still posts its pending commands.
\<close>

theorem offline_cloud_device_still_polls:
  "offline offline_device
   \<and> filter network_io (snd (Fan_refreshStatus quiet_env offline_device fan_on_pending)) = [GetStatus]
   \<and> posted (snd (snd (Fan_pushChanges quiet_env offline_device fan_on_pending)))
     = [Command ''turnOn'' (Lit ''default''), Command ''setWindSpeed'' (Text (Num (Fin 0))),
        Command ''setOscillation'' (Lit ''on'')]"
  by (simp add: offline_device_def cloud_device_def Fan_refreshStatus_def Fan_openAPIRefreshStatus_def
      quiet_env_def Fan_apiError_def Fan_pushChanges_def openAPIpush_posted rotation_posted posted_append
      fan_on_pending_def fan_synced_def fan_init_def strict_neq_def strict_eq_def hap_defs)

text \<open>
  C7, amended. For every device flagged offline for which no transport is selected (not the
  radio, not the cloud with a credential, and not the cloud switched off in the configuration),
  the refresh cycle and the push cycle do no network I/O and, on every cycle, hand the baseline to
  the hub: \<open>Active\<close> INACTIVE, \<open>RotationSpeed\<close> 0, \<open>SwingMode\<close> SWING_DISABLED for the fan,
  \<open>MotionDetected\<close> false for the motion sensor. The fields and the cache stay as they were.
\<close>

theorem offline_baseline:
  assumes "offline d" and "no_transport d"
  shows "Fan_refreshStatus e d s =
           (s, [UpdateCharacteristic Active INACTIVE, UpdateCharacteristic RotationSpeed (Num (Fin 0)),
                UpdateCharacteristic SwingMode SWING_DISABLED])
       \<and> Fan_pushChanges e d s =
           (Returns, s, [UpdateCharacteristic Active INACTIVE, UpdateCharacteristic RotationSpeed (Num (Fin 0)),
                         UpdateCharacteristic SwingMode SWING_DISABLED, ScheduleRefresh])
       \<and> filter network_io (snd (Fan_refreshStatus e d s)) = []
       \<and> filter network_io (snd (snd (Fan_pushChanges e d s))) = []
       \<and> Motion_refreshStatus e d m = (m, [UpdateCharacteristic MotionDetected (Bool False)])"
  using assms
  by (auto simp add: no_transport_def Fan_refreshStatus_def Fan_pushChanges_def Fan_offlineOff_def
      Motion_refreshStatus_def Motion_offlineOff_def)

text \<open>The amended C7 at an offline device with neither radio nor cloud.\<close>

theorem offline_baseline_witness:
  "offline unreachable_device \<and> no_transport unreachable_device
   \<and> Fan_refreshStatus quiet_env unreachable_device fan_on_pending =
       (fan_on_pending, [UpdateCharacteristic Active INACTIVE, UpdateCharacteristic RotationSpeed (Num (Fin 0)),
                         UpdateCharacteristic SwingMode SWING_DISABLED])
   \<and> filter network_io (snd (snd (Fan_pushChanges quiet_env unreachable_device fan_on_pending))) = []"
proof -
  have h1: "offline unreachable_device"
    by (simp add: unreachable_device_def cloud_device_def)
  have h2: "no_transport unreachable_device"
    by (simp add: unreachable_device_def cloud_device_def no_transport_def)
  show ?thesis
    using h1 h2 offline_baseline[OF h1 h2, of quiet_env fan_on_pending motion_init]
    by simp
qed

section \<open>C8: the webhook handlers\<close>

text \<open>
  C8, as stated, fails in both halves. A field that the event does not carry is not left
  unchanged: an event with no field at all turns a running fan with swing enabled to INACTIVE
  and SWING_DISABLED. And an exception can escape: the cache update is called without
  \<open>await\<close> inside the \<open>try\<close>, so on a radio motion sensor with the light sensor hidden, where
  it raises on the missing light sensor, the rejection is caught by nobody and nothing is logged.
\<close>

theorem webhook_overwrites_absent_fields:
  "Fan_Active fan_on_pending = ACTIVE \<and> Fan_SwingMode fan_on_pending = SWING_ENABLED
   \<and> ev_powerState no_event = Undefined \<and> ev_oscillation no_event = Undefined
   \<and> Fan_Active (fst (Fan_webhookEventHandler (Some no_event) fan_on_pending)) = INACTIVE
   \<and> Fan_SwingMode (fst (Fan_webhookEventHandler (Some no_event) fan_on_pending)) = SWING_DISABLED
   \<and> ACTIVE \<noteq> INACTIVE \<and> SWING_ENABLED \<noteq> SWING_DISABLED
   \<and> snd (Motion_webhookEventHandler hidden_radio_device
            (Some (no_event\<lparr>ev_detectionState := Str ''DETECTED''\<rparr>)) motion_init)
     = [UpdateCharacteristic MotionDetected (Bool True), UpdateCharacteristic BatteryLevel (Num (Fin 100)),
        UpdateCharacteristic StatusLowBattery BATTERY_LEVEL_NORMAL, UnhandledRejection]"
  by (simp add: fan_on_pending_def fan_synced_def fan_init_def no_event_def Fan_webhookEventHandler_def
      update_caches strict_eq_Str hap_defs Let_def case_prod_beta Motion_webhookEventHandler_def
      Motion_updateHomeKitCharacteristics_def hidden_radio_device_def radio_device_def cloud_device_def
      motion_init_def strict_eq_def)

text \<open>
  C8, amended. An event that is \<open>null\<close> or \<open>undefined\<close> is caught by either handler: every
  field stays as it was and the error is logged, nothing else. On an event object the fan's
  handler does nothing but hand values to the hub: it logs no error and leaves no rejection
  unhandled; so does the motion handler unless the device is on the radio with its light sensor
  hidden. From an event object the fan's handler sets \<open>Active\<close> to ACTIVE when \<open>powerState\<close> is
  \<open>'ON'\<close> and to INACTIVE otherwise, also when it is absent; likewise \<open>SwingMode\<close> from
  \<open>oscillation\<close> and \<open>ChargingState\<close> from \<open>chargingStatus\<close>; \<open>RotationSpeed\<close> and
  \<open>BatteryLevel\<close> take the event's value, which is \<open>undefined\<close> when absent, and then their
  cache entries are left as they were. \<open>StatusLowBattery\<close> and the light fields are not touched.
  The motion handler sets \<open>MotionDetected\<close> to whether \<open>detectionState\<close> is \<open>'DETECTED'\<close>,
  false when absent, and leaves the battery fields.
\<close>

theorem webhook_handler_fields:
  "Fan_webhookEventHandler None s = (s, [ErrorLog])
   \<and> Motion_webhookEventHandler d None m = (m, [ErrorLog])
   \<and> list_all hub_update (snd (Fan_webhookEventHandler (Some ev) s))
   \<and> UnhandledRejection \<notin> set (snd (Fan_webhookEventHandler c s))
   \<and> (ErrorLog \<in> set (snd (Fan_webhookEventHandler c s))) = (c = None)
   \<and> (\<not> (BLE d \<and> hide_lightsensor d) \<longrightarrow>
        list_all hub_update (snd (Motion_webhookEventHandler d (Some ev) m))
        \<and> UnhandledRejection \<notin> set (snd (Motion_webhookEventHandler d c m)))
   \<and> (ErrorLog \<in> set (snd (Motion_webhookEventHandler d c m))) = (c = None)
   \<and> Fan_Active (fst (Fan_webhookEventHandler (Some ev) s)) =
       (if ev_powerState ev = Str ''ON'' then ACTIVE else INACTIVE)
   \<and> Fan_SwingMode (fst (Fan_webhookEventHandler (Some ev) s)) =
       (if ev_oscillation ev = Str ''on'' then SWING_ENABLED else SWING_DISABLED)
   \<and> Fan_RotationSpeed (fst (Fan_webhookEventHandler (Some ev) s)) = ev_fanSpeed ev
   \<and> Battery_ChargingState (fst (Fan_webhookEventHandler (Some ev) s)) =
       (if ev_chargingStatus ev = Str ''charging'' then CHARGING else NOT_CHARGING)
   \<and> Battery_BatteryLevel (fst (Fan_webhookEventHandler (Some ev) s)) = ev_battery ev
   \<and> Battery_StatusLowBattery (fst (Fan_webhookEventHandler (Some ev) s)) = Battery_StatusLowBattery s
   \<and> LightBulb_On (fst (Fan_webhookEventHandler (Some ev) s)) = LightBulb_On s
   \<and> LightBulb_Brightness (fst (Fan_webhookEventHandler (Some ev) s)) = LightBulb_Brightness s
   \<and> (ev_fanSpeed ev = Undefined \<longrightarrow>
        context_RotationSpeed (fst (Fan_webhookEventHandler (Some ev) s)) = context_RotationSpeed s)
   \<and> (ev_battery ev = Undefined \<longrightarrow>
        context_BatteryLevel (fst (Fan_webhookEventHandler (Some ev) s)) = context_BatteryLevel s)
   \<and> MotionSensor_MotionDetected (fst (Motion_webhookEventHandler d (Some ev) m)) =
       Bool (ev_detectionState ev = Str ''DETECTED'')
   \<and> MBattery_BatteryLevel (fst (Motion_webhookEventHandler d (Some ev) m)) = MBattery_BatteryLevel m
   \<and> MBattery_StatusLowBattery (fst (Motion_webhookEventHandler d (Some ev) m)) = MBattery_StatusLowBattery m"
proof -
  have fh: "list_all hub_update (snd (Fan_webhookEventHandler (Some ev) s))" for ev
    using update_hub_only
    by (simp add: Fan_webhookEventHandler_def Let_def case_prod_beta)
  have fq: "UnhandledRejection \<notin> set (snd (Fan_webhookEventHandler c s))"
    "(ErrorLog \<in> set (snd (Fan_webhookEventHandler c s))) = (c = None)"
    using fh hub_only_quiet by (cases c; fastforce simp add: Fan_webhookEventHandler_def)+
  have mh: "list_all hub_update (snd (Motion_webhookEventHandler d (Some ev) m))"
    if "\<not> (BLE d \<and> hide_lightsensor d)" for ev
    using mupdate_hub_only[OF that] by (simp add: Motion_webhookEventHandler_def)
  have mq: "\<not> (BLE d \<and> hide_lightsensor d) \<longrightarrow> UnhandledRejection \<notin> set (snd (Motion_webhookEventHandler d c m))"
    using mh hub_only_quiet by (cases c; fastforce simp add: Motion_webhookEventHandler_def)
  have me: "(ErrorLog \<in> set (snd (Motion_webhookEventHandler d c m))) = (c = None)"
  proof (cases c)
    case None
    then show ?thesis by (simp add: Motion_webhookEventHandler_def)
  next
    case (Some a)
    have "filter reports_failure (snd (Motion_webhookEventHandler d (Some a) m)) = []"
      using mupdate_no_failure by (simp add: Motion_webhookEventHandler_def)
    then have "ErrorLog \<notin> set (snd (Motion_webhookEventHandler d (Some a) m))"
      by (auto simp: filter_empty_conv)
    then show ?thesis using Some by simp
  qed
  have mhq: "\<not> (BLE d \<and> hide_lightsensor d) \<longrightarrow>
        list_all hub_update (snd (Motion_webhookEventHandler d (Some ev) m))
        \<and> UnhandledRejection \<notin> set (snd (Motion_webhookEventHandler d c m))"
    using mh[of ev] mq by blast
  have rest: "Fan_webhookEventHandler None s = (s, [ErrorLog])"
    "Motion_webhookEventHandler d None m = (m, [ErrorLog])"
    "Fan_Active (fst (Fan_webhookEventHandler (Some ev) s)) =
       (if ev_powerState ev = Str ''ON'' then ACTIVE else INACTIVE)"
    "Fan_SwingMode (fst (Fan_webhookEventHandler (Some ev) s)) =
       (if ev_oscillation ev = Str ''on'' then SWING_ENABLED else SWING_DISABLED)"
    "Fan_RotationSpeed (fst (Fan_webhookEventHandler (Some ev) s)) = ev_fanSpeed ev"
    "Battery_ChargingState (fst (Fan_webhookEventHandler (Some ev) s)) =
       (if ev_chargingStatus ev = Str ''charging'' then CHARGING else NOT_CHARGING)"
    "Battery_BatteryLevel (fst (Fan_webhookEventHandler (Some ev) s)) = ev_battery ev"
    "Battery_StatusLowBattery (fst (Fan_webhookEventHandler (Some ev) s)) = Battery_StatusLowBattery s"
    "LightBulb_On (fst (Fan_webhookEventHandler (Some ev) s)) = LightBulb_On s"
    "LightBulb_Brightness (fst (Fan_webhookEventHandler (Some ev) s)) = LightBulb_Brightness s"
    "ev_fanSpeed ev = Undefined \<longrightarrow>
        context_RotationSpeed (fst (Fan_webhookEventHandler (Some ev) s)) = context_RotationSpeed s"
    "ev_battery ev = Undefined \<longrightarrow>
        context_BatteryLevel (fst (Fan_webhookEventHandler (Some ev) s)) = context_BatteryLevel s"
    "MotionSensor_MotionDetected (fst (Motion_webhookEventHandler d (Some ev) m)) =
       Bool (ev_detectionState ev = Str ''DETECTED'')"
    "MBattery_BatteryLevel (fst (Motion_webhookEventHandler d (Some ev) m)) = MBattery_BatteryLevel m"
    "MBattery_StatusLowBattery (fst (Motion_webhookEventHandler d (Some ev) m)) = MBattery_StatusLowBattery m"
    by (simp_all add: Fan_webhookEventHandler_def Motion_webhookEventHandler_def update_caches strict_eq_Str
        Let_def case_prod_beta mupdate_fields)
  show ?thesis
    by (intro conjI) (rule fh fq mhq me rest)+
qed

text \<open>The amended C8 at an event that carries only \<open>powerState: 'ON'\<close>, on a cloud device.\<close>

theorem webhook_handler_fields_witness:
  "ev_fanSpeed (no_event\<lparr>ev_powerState := Str ''ON''\<rparr>) = Undefined
   \<and> ev_battery (no_event\<lparr>ev_powerState := Str ''ON''\<rparr>) = Undefined
   \<and> \<not> (BLE cloud_device \<and> hide_lightsensor cloud_device)
   \<and> Fan_Active (fst (Fan_webhookEventHandler (Some (no_event\<lparr>ev_powerState := Str ''ON''\<rparr>)) fan_synced))
     = ACTIVE
   \<and> Fan_RotationSpeed (fst (Fan_webhookEventHandler (Some (no_event\<lparr>ev_powerState := Str ''ON''\<rparr>)) fan_synced))
     = Undefined
   \<and> context_RotationSpeed
       (fst (Fan_webhookEventHandler (Some (no_event\<lparr>ev_powerState := Str ''ON''\<rparr>)) fan_synced))
     = Num (Fin 0)
   \<and> UnhandledRejection \<notin> set (snd (Motion_webhookEventHandler cloud_device
        (Some (no_event\<lparr>ev_powerState := Str ''ON''\<rparr>)) motion_init))
   \<and> ErrorLog \<notin> set (snd (Fan_webhookEventHandler (Some (no_event\<lparr>ev_powerState := Str ''ON''\<rparr>)) fan_synced))"
proof -
  have h1: "ev_fanSpeed (no_event\<lparr>ev_powerState := Str ''ON''\<rparr>) = Undefined"
    by (simp add: no_event_def)
  have h2: "ev_battery (no_event\<lparr>ev_powerState := Str ''ON''\<rparr>) = Undefined"
    by (simp add: no_event_def)
  have h3: "context_RotationSpeed fan_synced = Num (Fin 0)"
    by (simp add: fan_synced_def)
  have h4: "\<not> (BLE cloud_device \<and> hide_lightsensor cloud_device)"
    by (simp add: cloud_device_def)
  show ?thesis
    using h1 h2 h3 h4
      webhook_handler_fields[of fan_synced cloud_device motion_init "no_event\<lparr>ev_powerState := Str ''ON''\<rparr>"
        "Some (no_event\<lparr>ev_powerState := Str ''ON''\<rparr>)"]
    by simp
qed

section \<open>C9: the radio push clears Active\<close>

text \<open>
  C9. In the radio push, whenever \<open>Active\<close> differs from its cache and the radio sequence
  succeeds, the command sent is \<open>turnOn\<close> for a truthy \<open>Active\<close> and \<open>turnOff\<close> otherwise,
  and afterwards \<open>Active\<close> is \<open>false\<close> in either case; no other field changes.
\<close>

theorem BLE_push_clears_Active:
  assumes "strict_neq (Fan_Active s) (context_Active s)" and "ble_available e" and "ble_push e = BLE_ok"
  shows "Fan_BLEpushChanges e d s =
           (Returns, s\<lparr>Fan_Active := Bool False\<rparr>,
            [ConnectBLE, DiscoverBLE, if truthy (Fan_Active s) then TurnOnBLE else TurnOffBLE, SuccessLog])
       \<and> Fan_Active (fst (snd (Fan_BLEpushChanges e d s))) = Bool False"
  using assms by (simp add: Fan_BLEpushChanges_def)

text \<open>C9 at a fan being switched on: \<open>turnOn\<close> is sent and \<open>Active\<close> ends \<open>false\<close>.\<close>

theorem BLE_push_clears_Active_witness:
  "strict_neq (Fan_Active fan_on_pending) (context_Active fan_on_pending)
   \<and> ble_available quiet_env \<and> ble_push quiet_env = BLE_ok
   \<and> truthy (Fan_Active fan_on_pending)
   \<and> snd (snd (Fan_BLEpushChanges quiet_env radio_device fan_on_pending))
       = [ConnectBLE, DiscoverBLE, TurnOnBLE, SuccessLog]
   \<and> Fan_Active (fst (snd (Fan_BLEpushChanges quiet_env radio_device fan_on_pending))) = Bool False"
proof -
  have h1: "strict_neq (Fan_Active fan_on_pending) (context_Active fan_on_pending)"
    by (simp add: fan_on_pending_def fan_synced_def fan_init_def strict_neq_def strict_eq_def hap_defs)
  have h2: "ble_available quiet_env" by (simp add: quiet_env_def)
  have h3: "ble_push quiet_env = BLE_ok" by (simp add: quiet_env_def)
  have h4: "truthy (Fan_Active fan_on_pending)"
    by (simp add: fan_on_pending_def fan_synced_def fan_init_def hap_defs)
  show ?thesis
    using h1 h2 h3 h4 BLE_push_clears_Active[OF h1 h2 h3, of radio_device]
    by simp
qed

section \<open>C10: nothing but power is sent while the fan is off\<close>

text \<open>
  C10. Whenever \<open>Active\<close> is falsy when the cloud dispatch runs, the only command it can post
  is \<open>turnOff\<close> (exactly when \<open>Active\<close> differs from its cache): no \<open>setWindSpeed\<close> and no
  \<open>setOscillation\<close>, whatever the rotation speed and the swing mode are. The push changes
  neither fields nor cache, so a withheld change is still there for a later cycle.
\<close>

theorem inactive_withholds_secondary:
  assumes "\<not> truthy (Fan_Active s)"
  shows "posted (Fan_openAPIpushChanges e s) =
           (if strict_neq (Fan_Active s) (context_Active s) then [Command ''turnOff'' (Lit ''default'')] else [])
       \<and> (\<forall>c \<in> set (posted (Fan_openAPIpushChanges e s)).
             command_name c \<noteq> ''setWindSpeed'' \<and> command_name c \<noteq> ''setOscillation'')
       \<and> (cloud_transport d \<longrightarrow>
             Fan_pushChanges e d s = (Returns, s, Fan_openAPIpushChanges e s @ [ScheduleRefresh]))"
  using assms pushChanges_cloud[of d e s] by (simp add: openAPIpush_posted)

text \<open>C10 at a fan that is off with the swing mode changed: nothing is posted, the change stays.\<close>

theorem inactive_withholds_secondary_witness:
  "\<not> truthy (Fan_Active fan_swing_pending)
   \<and> strict_neq (Fan_SwingMode fan_swing_pending) (context_SwingMode fan_swing_pending)
   \<and> cloud_transport cloud_device
   \<and> posted (Fan_openAPIpushChanges answering_env fan_swing_pending) = []
   \<and> fst (snd (Fan_pushChanges answering_env cloud_device fan_swing_pending)) = fan_swing_pending"
proof -
  have h1: "\<not> truthy (Fan_Active fan_swing_pending)"
    by (simp add: fan_swing_pending_def fan_synced_def fan_init_def hap_defs)
  have h2: "strict_neq (Fan_SwingMode fan_swing_pending) (context_SwingMode fan_swing_pending)"
    by (simp add: fan_swing_pending_def fan_synced_def fan_init_def strict_neq_def strict_eq_def hap_defs)
  have h3: "cloud_transport cloud_device"
    by (simp add: cloud_transport_def cloud_device_def)
  have h4: "\<not> strict_neq (Fan_Active fan_swing_pending) (context_Active fan_swing_pending)"
    by (simp add: fan_swing_pending_def fan_synced_def fan_init_def strict_neq_def strict_eq_def hap_defs)
  show ?thesis
    using h1 h2 h3 h4 inactive_withholds_secondary[OF h1, of answering_env cloud_device]
    by simp
qed

end
